theory Spec2Isabelle
  imports Main "HOL-Library.Word" "HOL-Library.Sublist"
begin

unbundle bit_operations_syntax

section \<open>Strings, bytes and the parts of the standard library the package calls\<close>

text \<open>
  A Go string is a sequence of bytes; it is modelled as \<open>string\<close> (a list of 8-bit
  characters). A byte is read as a number with \<open>byte\<close>.
\<close>

definition byte :: "char \<Rightarrow> nat" where
  "byte c = of_char c"

text \<open>
  \<open>strings.Replace(s, old, new, -1)\<close> for a one-byte \<open>old\<close> and a one-byte \<open>new\<close>, the
  only way the package calls it: every occurrence of the byte is replaced.
\<close>

fun Replace :: "string \<Rightarrow> char \<Rightarrow> char \<Rightarrow> string" where
  "Replace [] old new = []"
| "Replace (c # cs) old new = (if c = old then new else c) # Replace cs old new"

text \<open>
  The functions of the standard library that are not modelled byte by byte are taken as
  parameters, collected in one record:
  \<^item> \<open>IntSize\<close> is \<open>strconv.IntSize\<close>, the size in bits of an \<open>int\<close> or \<open>uint\<close>
    on the platform (32 or 64);
  \<^item> \<open>mapUnicodeToUpper\<close> is \<open>strings.Map(unicode.ToUpper, s)\<close>, the path
    \<open>strings.ToUpper\<close> takes for a string with a byte outside ASCII (it needs the
    Unicode case tables);
  \<^item> \<open>ParseFloat\<close> is \<open>strconv.ParseFloat(s, 64)\<close>: the value and the error
    returned (\<open>None\<close> for \<open>nil\<close>). The type \<open>'f\<close> of float64 values is left open;
  \<^item> \<open>ParseDuration\<close> is \<open>time.ParseDuration(s)\<close>, \<open>None\<close> when it returns an
    error. A duration is an int64 count of nanoseconds.
\<close>

datatype NumError = ErrSyntax | ErrRange | ErrBase | ErrBitSize

record 'f stdlib =
  IntSize :: int
  mapUnicodeToUpper :: "string \<Rightarrow> string"
  ParseFloat :: "string \<Rightarrow> 'f \<times> NumError option"
  ParseDuration :: "string \<Rightarrow> 64 word option"

text \<open>
  \<open>strings.ToUpper\<close>: a string of ASCII bytes only has each byte in \<open>'a'..'z'\<close> moved
  down by \<open>'a' - 'A'\<close>; any other string goes through the Unicode mapping.
\<close>

definition isASCII :: "string \<Rightarrow> bool" where
  "isASCII s = list_all (\<lambda>c. byte c < 128) s"

definition upperByte :: "char \<Rightarrow> char" where
  "upperByte c = (if 97 \<le> byte c \<and> byte c \<le> 122 then char_of (byte c - 32) else c)"

definition ToUpper :: "('f, 'x) stdlib_scheme \<Rightarrow> string \<Rightarrow> string" where
  "ToUpper L s = (if isASCII s then map upperByte s else mapUnicodeToUpper L s)"

section \<open>The process: the package variable and the environment\<close>

text \<open>
  \<open>envPrefix\<close> is the package-level variable of flag.go; \<open>environ\<close> is the process
  environment that \<open>os.LookupEnv\<close> reads (\<open>None\<close>: the variable is not set).
\<close>

record world =
  envPrefix :: string
  environ :: "string \<rightharpoonup> string"

definition LookupEnv :: "'z world_scheme \<Rightarrow> string \<Rightarrow> string option" where
  "LookupEnv w key = environ w key"

definition SetEnvPrefix :: "string \<Rightarrow> 'z world_scheme \<Rightarrow> 'z world_scheme" where
  "SetEnvPrefix pfx w = w\<lparr>envPrefix := pfx\<rparr>"

definition envNameForFlagName :: "('f, 'x) stdlib_scheme \<Rightarrow> 'z world_scheme \<Rightarrow> string \<Rightarrow> string" where
  "envNameForFlagName L w name =
     (let envName = (if length (envPrefix w) > 0 then envPrefix w @ ''_'' @ name else name)
      in ToUpper L (Replace envName (CHR ''-'') (CHR ''_'')))"

section \<open>The resolvers of the effective default\<close>

definition boolFromEnv :: "('f, 'x) stdlib_scheme \<Rightarrow> 'z world_scheme \<Rightarrow> string \<Rightarrow> bool \<Rightarrow> bool" where
  "boolFromEnv L w name value =
     (case LookupEnv w (envNameForFlagName L w name) of
        None \<Rightarrow> value
      | Some val \<Rightarrow> val = ''true'')"

definition durationFromEnv :: "('f, 'x) stdlib_scheme \<Rightarrow> 'z world_scheme \<Rightarrow> string \<Rightarrow> 64 word \<Rightarrow> 64 word" where
  "durationFromEnv L w name value =
     (case LookupEnv w (envNameForFlagName L w name) of
        None \<Rightarrow> value
      | Some val \<Rightarrow> (case ParseDuration L val of None \<Rightarrow> value | Some dur \<Rightarrow> dur))"

definition float64FromEnv :: "('f, 'x) stdlib_scheme \<Rightarrow> 'z world_scheme \<Rightarrow> string \<Rightarrow> 'f \<Rightarrow> 'f" where
  "float64FromEnv L w name value =
     (case LookupEnv w (envNameForFlagName L w name) of
        None \<Rightarrow> value
      | Some val \<Rightarrow> (case ParseFloat L val of (fl, None) \<Rightarrow> fl | (fl, Some err) \<Rightarrow> value))"

definition stringFromEnv :: "('f, 'x) stdlib_scheme \<Rightarrow> 'z world_scheme \<Rightarrow> string \<Rightarrow> string \<Rightarrow> string" where
  "stringFromEnv L w name value =
     (case LookupEnv w (envNameForFlagName L w name) of
        None \<Rightarrow> value
      | Some val \<Rightarrow> val)"

section \<open>strconv: integers with a base prefix\<close>

text \<open>\<open>lower(c)\<close> is \<open>c | ('x' - 'X')\<close>.\<close>

definition lower :: "char \<Rightarrow> nat" where
  "lower c = byte c OR 32"

text \<open>
  The digit a byte stands for in the loop of \<open>ParseUint\<close>: \<open>c - '0'\<close> for \<open>'0'..'9'\<close>,
  \<open>lower(c) - 'a' + 10\<close> for a letter, and the syntax error (\<open>None\<close>) for any other byte.
\<close>

definition digitOf :: "char \<Rightarrow> nat option" where
  "digitOf c =
     (if 48 \<le> byte c \<and> byte c \<le> 57 then Some (byte c - 48)
      else if 97 \<le> lower c \<and> lower c \<le> 122 then Some (lower c - 97 + 10)
      else None)"

text \<open>
  The loop of \<open>ParseUint\<close> over the bytes after the prefix, on uint64 arithmetic. An
  early return is \<open>Inl\<close> of the value and the error returned; the end of the string is
  \<open>Inr\<close> of the number and of whether an underscore was seen.
\<close>

fun parseLoop :: "bool \<Rightarrow> nat \<Rightarrow> 64 word \<Rightarrow> 64 word \<Rightarrow> string \<Rightarrow> 64 word \<Rightarrow> bool
    \<Rightarrow> (64 word \<times> NumError) + (64 word \<times> bool)" where
  "parseLoop base0 base cutoff maxVal [] n underscores = Inr (n, underscores)"
| "parseLoop base0 base cutoff maxVal (c # cs) n underscores =
     (if c = CHR ''_'' \<and> base0 then parseLoop base0 base cutoff maxVal cs n True
      else case digitOf c of
        None \<Rightarrow> Inl (0, ErrSyntax)
      | Some d \<Rightarrow>
          if d \<ge> base then Inl (0, ErrSyntax)
          else if n \<ge> cutoff then Inl (maxVal, ErrRange)
          else
            let n' = n * of_nat base;
                n1 = n' + of_nat d
            in if n1 < n' \<or> n1 > maxVal then Inl (maxVal, ErrRange)
               else parseLoop base0 base cutoff maxVal cs n1 underscores)"

text \<open>
  \<open>underscoreOK\<close>: an underscore must stand between digits, or between a base prefix
  and a digit. \<open>saw\<close> is the last kind of character seen, as in the source:
  \<open>^\<close> at the start, \<open>0\<close> for a digit or base prefix, \<open>_\<close>, and \<open>!\<close> for anything else.
\<close>

fun underscoreLoop :: "bool \<Rightarrow> char \<Rightarrow> string \<Rightarrow> bool" where
  "underscoreLoop hex saw [] = (saw \<noteq> CHR ''_'')"
| "underscoreLoop hex saw (c # cs) =
     (if (48 \<le> byte c \<and> byte c \<le> 57) \<or> (hex \<and> 97 \<le> lower c \<and> lower c \<le> 102)
      then underscoreLoop hex (CHR ''0'') cs
      else if c = CHR ''_''
      then (if saw \<noteq> CHR ''0'' then False else underscoreLoop hex (CHR ''_'') cs)
      else if saw = CHR ''_'' then False
      else underscoreLoop hex (CHR ''!'') cs)"

definition underscoreOK :: "string \<Rightarrow> bool" where
  "underscoreOK s0 =
     (let s = (if length s0 \<ge> 1 \<and> (hd s0 = CHR ''-'' \<or> hd s0 = CHR ''+'') then tl s0 else s0)
      in if length s \<ge> 2 \<and> hd s = CHR ''0''
            \<and> (lower (s ! 1) = 98 \<or> lower (s ! 1) = 111 \<or> lower (s ! 1) = 120)
         then underscoreLoop (lower (s ! 1) = 120) (CHR ''0'') (drop 2 s)
         else underscoreLoop False (CHR ''^'') s)"

text \<open>
  The base switch of \<open>ParseUint\<close>: a base in \<open>2..36\<close> is kept; base 0 reads the prefix
  (\<open>0b\<close>, \<open>0o\<close>, \<open>0x\<close> when at least three bytes long, else a leading \<open>0\<close> for octal,
  else decimal); any other base is an error (\<open>None\<close>). The string is not empty.
\<close>

definition pickBase :: "string \<Rightarrow> int \<Rightarrow> (nat \<times> string) option" where
  "pickBase s base =
     (if 2 \<le> base \<and> base \<le> 36 then Some (nat base, s)
      else if base = 0 then
        (if hd s = CHR ''0'' then
           (if length s \<ge> 3 \<and> lower (s ! 1) = 98 then Some (2, drop 2 s)
            else if length s \<ge> 3 \<and> lower (s ! 1) = 111 then Some (8, drop 2 s)
            else if length s \<ge> 3 \<and> lower (s ! 1) = 120 then Some (16, drop 2 s)
            else Some (8, drop 1 s))
         else Some (10, s))
      else None)"

definition maxUint64 :: "64 word" where
  "maxUint64 = - 1"

text \<open>
  \<open>strconv.ParseUint(s, base, bitSize)\<close>: the value and the error returned
  (\<open>None\<close> for \<open>nil\<close>).
\<close>

definition ParseUint :: "('f, 'x) stdlib_scheme \<Rightarrow> string \<Rightarrow> int \<Rightarrow> int \<Rightarrow> 64 word \<times> NumError option" where
  "ParseUint L s base bitSize =
     (if s = [] then (0, Some ErrSyntax)
      else case pickBase s base of
        None \<Rightarrow> (0, Some ErrBase)
      | Some (b, digits) \<Rightarrow>
          if bitSize \<noteq> 0 \<and> (bitSize < 0 \<or> bitSize > 64) then (0, Some ErrBitSize)
          else
            let bits = (if bitSize = 0 then IntSize L else bitSize);
                cutoff = maxUint64 div of_nat b + 1;
                maxVal = push_bit (nat bits) 1 - 1
            in (case parseLoop (base = 0) b cutoff maxVal digits 0 False of
                  Inl (v, e) \<Rightarrow> (v, Some e)
                | Inr (n, underscores) \<Rightarrow>
                    if underscores \<and> \<not> underscoreOK s then (0, Some ErrSyntax)
                    else (n, None)))"

text \<open>
  \<open>strconv.ParseInt(s, base, bitSize)\<close>: the int64 returned is a 64-bit word, read as
  two's complement by \<open>sint\<close>.
\<close>

definition ParseInt :: "('f, 'x) stdlib_scheme \<Rightarrow> string \<Rightarrow> int \<Rightarrow> int \<Rightarrow> 64 word \<times> NumError option" where
  "ParseInt L s0 base bitSize =
     (if s0 = [] then (0, Some ErrSyntax)
      else
        let neg = (hd s0 = CHR ''-'');
            s = (if hd s0 = CHR ''+'' \<or> hd s0 = CHR ''-'' then tl s0 else s0);
            (un, err) = ParseUint L s base bitSize
        in if err \<noteq> None \<and> err \<noteq> Some ErrRange then (0, err)
           else
             let bits = (if bitSize = 0 then IntSize L else bitSize);
                 cutoff = (push_bit (nat (bits - 1)) 1 :: 64 word)
             in if \<not> neg \<and> un \<ge> cutoff then (cutoff - 1, Some ErrRange)
                else if neg \<and> un > cutoff then (- cutoff, Some ErrRange)
                else (if neg then - un else un, None))"

text \<open>The two integer resolvers of flag.go.\<close>

definition int64FromEnv :: "('f, 'x) stdlib_scheme \<Rightarrow> 'z world_scheme \<Rightarrow> string \<Rightarrow> 64 word \<Rightarrow> 64 word" where
  "int64FromEnv L w name value =
     (case LookupEnv w (envNameForFlagName L w name) of
        None \<Rightarrow> value
      | Some val \<Rightarrow> (case ParseInt L val 0 64 of (i, None) \<Rightarrow> i | (i, Some err) \<Rightarrow> value))"

definition uint64FromEnv :: "('f, 'x) stdlib_scheme \<Rightarrow> 'z world_scheme \<Rightarrow> string \<Rightarrow> 64 word \<Rightarrow> 64 word" where
  "uint64FromEnv L w name value =
     (case LookupEnv w (envNameForFlagName L w name) of
        None \<Rightarrow> value
      | Some val \<Rightarrow> (case ParseUint L val 0 64 of (i, None) \<Rightarrow> i | (i, Some err) \<Rightarrow> value))"

section \<open>list.go\<close>

text \<open>
  \<open>strings.Split(s, sep)\<close> for a one-byte separator, after \<open>genSplit\<close>: the result has
  room for \<open>Count(s, sep) + 1\<close> pieces; while fewer than \<open>n - 1\<close> pieces are cut and
  \<open>Index\<close> finds the separator, the piece before it is cut off; what is left of the
  string is the last piece. \<open>Index\<close> is \<open>None\<close> where the source returns \<open>-1\<close>.
\<close>

fun Count :: "string \<Rightarrow> char \<Rightarrow> nat" where
  "Count [] sep = 0"
| "Count (c # cs) sep = (if c = sep then Suc (Count cs sep) else Count cs sep)"

fun Index :: "string \<Rightarrow> char \<Rightarrow> nat option" where
  "Index [] sep = None"
| "Index (c # cs) sep = (if c = sep then Some 0 else map_option Suc (Index cs sep))"

fun genSplit :: "string \<Rightarrow> char \<Rightarrow> nat \<Rightarrow> string list" where
  "genSplit s sep 0 = [s]"
| "genSplit s sep (Suc k) =
     (case Index s sep of
        None \<Rightarrow> [s]
      | Some m \<Rightarrow> take m s # genSplit (drop (m + 1) s) sep k)"

definition Split :: "string \<Rightarrow> char \<Rightarrow> string list" where
  "Split s sep = (let n = min (Count s sep + 1) (length s + 1) in genSplit s sep (n - 1))"

definition ListFromString :: "string \<Rightarrow> string list" where
  "ListFromString s = Split s (CHR '','')"

text \<open>\<open>strings.Join\<close> with a one-byte separator, to state what splitting keeps.\<close>

fun Join :: "string list \<Rightarrow> char \<Rightarrow> string" where
  "Join [] sep = []"
| "Join [x] sep = x"
| "Join (x # y # ys) sep = x @ sep # Join (y # ys) sep"

section \<open>The flag package of the standard library, as far as flag.go drives it\<close>

text \<open>
  Variables live in a store: \<open>heap\<close> maps an address to the cell it holds, and \<open>brk\<close> is
  the next address \<open>new\<close> hands out. A pointer is an address; an address that holds no
  cell stands for a nil pointer. \<open>'i\<close> is the type of \<open>int\<close> and \<open>uint\<close> values: the
  words \<open>'w word\<close> of the platform's width \<open>'w\<close>.
\<close>

datatype ('i, 'f) cell =
    BoolCell bool
  | DurationCell "64 word"
  | Float64Cell 'f
  | IntCell 'i
  | Int64Cell "64 word"
  | StringCell string
  | UintCell 'i
  | Uint64Cell "64 word"

text \<open>The flag package's \<open>Value\<close> implementations: each is a pointer to the variable.\<close>

datatype Value =
    boolValue nat
  | durationValue nat
  | float64Value nat
  | intValue nat
  | int64Value nat
  | stringValue nat
  | uintValue nat
  | uint64Value nat

text \<open>A \<open>Flag\<close>, without \<open>DefValue\<close> (the default as text, which only printing reads).\<close>

record Flag =
  Name :: string
  Usage :: string
  Value :: Value

datatype Fault = Panic string | Exit int

datatype FlagError = errParse | errRange | errNum NumError | errNoSuchFlag string

datatype ParseError =
    ErrHelp
  | BadFlagSyntax string
  | NotDefined string
  | InvalidBoolValue string string
  | InvalidBoolFlag string
  | NeedsArgument string
  | InvalidValue string string

text \<open>
  The process state: the world of the resolvers, the store, the fields of
  \<open>flag.CommandLine\<close> (\<open>formal\<close>, \<open>actual\<close>, \<open>args\<close>, \<open>parsed\<close>) and \<open>os.Args\<close>.
\<close>

record ('i, 'f) proc = world +
  heap :: "nat \<rightharpoonup> ('i, 'f) cell"
  brk :: nat
  formal :: "string \<rightharpoonup> Flag"
  actual :: "string \<rightharpoonup> Flag"
  args :: "string list"
  parsed :: bool
  os_Args :: "string list"

definition new :: "('i, 'f) cell \<Rightarrow> ('i, 'f) proc \<Rightarrow> nat \<times> ('i, 'f) proc" where
  "new zero s = (brk s, s\<lparr>heap := (heap s)(brk s \<mapsto> zero), brk := Suc (brk s)\<rparr>)"

text \<open>\<open>*p = c\<close>: a panic when \<open>p\<close> is nil.\<close>

definition assign :: "nat \<Rightarrow> ('i, 'f) cell \<Rightarrow> ('i, 'f) proc \<Rightarrow> Fault + ('i, 'f) proc" where
  "assign p c s =
     (case heap s p of
        None \<Rightarrow> Inl (Panic ''invalid memory address or nil pointer dereference'')
      | Some old \<Rightarrow> Inr (s\<lparr>heap := (heap s)(p \<mapsto> c)\<rparr>))"

text \<open>\<open>CommandLine.Var\<close>: the name checks, the panic on a redefinition, the registration.\<close>

definition f_Var :: "Value \<Rightarrow> string \<Rightarrow> string \<Rightarrow> ('i, 'f) proc \<Rightarrow> Fault + ('i, 'f) proc" where
  "f_Var v name usage s =
     (if prefix ''-'' name then Inl (Panic (''flag begins with -: '' @ name))
      else if CHR ''='' \<in> set name then Inl (Panic (''flag contains =: '' @ name))
      else case formal s name of
        Some there \<Rightarrow> Inl (Panic (''flag redefined: '' @ name))
      | None \<Rightarrow> Inr (s\<lparr>formal := (formal s)(name \<mapsto> \<lparr>Name = name, Usage = usage, Value = v\<rparr>)\<rparr>))"

text \<open>
  The \<open>XxxVar\<close> functions of the flag package store the default through the pointer
  (\<open>newXxxValue\<close>) and register the flag on it; the \<open>Xxx\<close> functions allocate the variable
  first and return its address.
\<close>

definition f_VarAt :: "(nat \<Rightarrow> Value) \<Rightarrow> nat \<Rightarrow> string \<Rightarrow> ('i, 'f) cell \<Rightarrow> string \<Rightarrow> ('i, 'f) proc
    \<Rightarrow> Fault + ('i, 'f) proc" where
  "f_VarAt mk p name c usage s =
     (case assign p c s of
        Inl e \<Rightarrow> Inl e
      | Inr s1 \<Rightarrow> f_Var (mk p) name usage s1)"

definition f_New :: "(nat \<Rightarrow> Value) \<Rightarrow> ('i, 'f) cell \<Rightarrow> string \<Rightarrow> ('i, 'f) cell \<Rightarrow> string \<Rightarrow> ('i, 'f) proc
    \<Rightarrow> Fault + (nat \<times> ('i, 'f) proc)" where
  "f_New mk zero name c usage s =
     (let (p, s1) = new zero s
      in case f_VarAt mk p name c usage s1 of
           Inl e \<Rightarrow> Inl e
         | Inr s2 \<Rightarrow> Inr (p, s2))"

definition f_BoolVar :: "nat \<Rightarrow> string \<Rightarrow> bool \<Rightarrow> string \<Rightarrow> ('i, 'f) proc \<Rightarrow> Fault + ('i, 'f) proc" where
  "f_BoolVar p name value usage = f_VarAt boolValue p name (BoolCell value) usage"

definition f_Bool :: "string \<Rightarrow> bool \<Rightarrow> string \<Rightarrow> ('i, 'f) proc \<Rightarrow> Fault + (nat \<times> ('i, 'f) proc)" where
  "f_Bool name value usage = f_New boolValue (BoolCell False) name (BoolCell value) usage"

definition f_DurationVar :: "nat \<Rightarrow> string \<Rightarrow> 64 word \<Rightarrow> string \<Rightarrow> ('i, 'f) proc \<Rightarrow> Fault + ('i, 'f) proc" where
  "f_DurationVar p name value usage = f_VarAt durationValue p name (DurationCell value) usage"

definition f_Duration :: "string \<Rightarrow> 64 word \<Rightarrow> string \<Rightarrow> ('i, 'f) proc \<Rightarrow> Fault + (nat \<times> ('i, 'f) proc)" where
  "f_Duration name value usage = f_New durationValue (DurationCell 0) name (DurationCell value) usage"

definition f_Float64Var :: "nat \<Rightarrow> string \<Rightarrow> 'f \<Rightarrow> string \<Rightarrow> ('i, 'f) proc \<Rightarrow> Fault + ('i, 'f) proc" where
  "f_Float64Var p name value usage = f_VarAt float64Value p name (Float64Cell value) usage"

text \<open>The zero of float64 is a parameter, as the type is.\<close>

definition f_Float64 :: "'f \<Rightarrow> string \<Rightarrow> 'f \<Rightarrow> string \<Rightarrow> ('i, 'f) proc \<Rightarrow> Fault + (nat \<times> ('i, 'f) proc)" where
  "f_Float64 fzero name value usage = f_New float64Value (Float64Cell fzero) name (Float64Cell value) usage"

definition f_IntVar :: "nat \<Rightarrow> string \<Rightarrow> 'w::len word \<Rightarrow> string \<Rightarrow> ('w word, 'f) proc \<Rightarrow> Fault + ('w word, 'f) proc" where
  "f_IntVar p name value usage = f_VarAt intValue p name (IntCell value) usage"

definition f_Int :: "string \<Rightarrow> 'w::len word \<Rightarrow> string \<Rightarrow> ('w word, 'f) proc \<Rightarrow> Fault + (nat \<times> ('w word, 'f) proc)" where
  "f_Int name value usage = f_New intValue (IntCell 0) name (IntCell value) usage"

definition f_Int64Var :: "nat \<Rightarrow> string \<Rightarrow> 64 word \<Rightarrow> string \<Rightarrow> ('i, 'f) proc \<Rightarrow> Fault + ('i, 'f) proc" where
  "f_Int64Var p name value usage = f_VarAt int64Value p name (Int64Cell value) usage"

definition f_Int64 :: "string \<Rightarrow> 64 word \<Rightarrow> string \<Rightarrow> ('i, 'f) proc \<Rightarrow> Fault + (nat \<times> ('i, 'f) proc)" where
  "f_Int64 name value usage = f_New int64Value (Int64Cell 0) name (Int64Cell value) usage"

definition f_StringVar :: "nat \<Rightarrow> string \<Rightarrow> string \<Rightarrow> string \<Rightarrow> ('i, 'f) proc \<Rightarrow> Fault + ('i, 'f) proc" where
  "f_StringVar p name value usage = f_VarAt stringValue p name (StringCell value) usage"

definition f_String :: "string \<Rightarrow> string \<Rightarrow> string \<Rightarrow> ('i, 'f) proc \<Rightarrow> Fault + (nat \<times> ('i, 'f) proc)" where
  "f_String name value usage = f_New stringValue (StringCell []) name (StringCell value) usage"

definition f_UintVar :: "nat \<Rightarrow> string \<Rightarrow> 'w::len word \<Rightarrow> string \<Rightarrow> ('w word, 'f) proc \<Rightarrow> Fault + ('w word, 'f) proc" where
  "f_UintVar p name value usage = f_VarAt uintValue p name (UintCell value) usage"

definition f_Uint :: "string \<Rightarrow> 'w::len word \<Rightarrow> string \<Rightarrow> ('w word, 'f) proc \<Rightarrow> Fault + (nat \<times> ('w word, 'f) proc)" where
  "f_Uint name value usage = f_New uintValue (UintCell 0) name (UintCell value) usage"

definition f_Uint64Var :: "nat \<Rightarrow> string \<Rightarrow> 64 word \<Rightarrow> string \<Rightarrow> ('i, 'f) proc \<Rightarrow> Fault + ('i, 'f) proc" where
  "f_Uint64Var p name value usage = f_VarAt uint64Value p name (Uint64Cell value) usage"

definition f_Uint64 :: "string \<Rightarrow> 64 word \<Rightarrow> string \<Rightarrow> ('i, 'f) proc \<Rightarrow> Fault + (nat \<times> ('i, 'f) proc)" where
  "f_Uint64 name value usage = f_New uint64Value (Uint64Cell 0) name (Uint64Cell value) usage"

text \<open>
  \<open>strconv.ParseBool\<close>, and \<open>numError\<close>, which turns a syntax or range error of strconv
  into the flag package's own.
\<close>

definition ParseBool :: "string \<Rightarrow> bool \<times> NumError option" where
  "ParseBool str =
     (if str \<in> set [''1'', ''t'', ''T'', ''TRUE'', ''true'', ''True''] then (True, None)
      else if str \<in> set [''0'', ''f'', ''F'', ''FALSE'', ''false'', ''False''] then (False, None)
      else (False, Some ErrSyntax))"

definition numError :: "NumError \<Rightarrow> FlagError" where
  "numError e = (if e = ErrSyntax then errParse else if e = ErrRange then errRange else errNum e)"

text \<open>
  \<open>Value.Set\<close>: each implementation parses the text, stores the value returned through
  its pointer (also when the parse failed) and returns the error. The bit size of an
  \<open>int\<close> or \<open>uint\<close> flag is \<open>strconv.IntSize\<close>, here the width \<open>'w\<close> of the \<open>int\<close> and
  \<open>uint\<close> cells of the store.
\<close>

definition store :: "nat \<Rightarrow> ('i, 'f) cell \<Rightarrow> ('i, 'f) proc \<Rightarrow> ('i, 'f) proc" where
  "store p c s = s\<lparr>heap := (heap s)(p \<mapsto> c)\<rparr>"

fun Value_Set :: "('f, 'x) stdlib_scheme \<Rightarrow> Value \<Rightarrow> string \<Rightarrow> ('w::len word, 'f) proc
    \<Rightarrow> FlagError option \<times> ('w word, 'f) proc" where
  "Value_Set L (boolValue p) str s =
     (case ParseBool str of (v, err) \<Rightarrow> (map_option (\<lambda>e. errParse) err, store p (BoolCell v) s))"
| "Value_Set L (durationValue p) str s =
     (case ParseDuration L str of
        None \<Rightarrow> (Some errParse, store p (DurationCell 0) s)
      | Some v \<Rightarrow> (None, store p (DurationCell v) s))"
| "Value_Set L (float64Value p) str s =
     (case ParseFloat L str of (v, err) \<Rightarrow> (map_option numError err, store p (Float64Cell v) s))"
| "Value_Set L (intValue p) str s =
     (case ParseInt L str 0 (int LENGTH('w)) of
        (v, err) \<Rightarrow> (map_option numError err, store p (IntCell (ucast v)) s))"
| "Value_Set L (int64Value p) str s =
     (case ParseInt L str 0 64 of (v, err) \<Rightarrow> (map_option numError err, store p (Int64Cell v) s))"
| "Value_Set L (stringValue p) str s = (None, store p (StringCell str) s)"
| "Value_Set L (uintValue p) str s =
     (case ParseUint L str 0 (int LENGTH('w)) of
        (v, err) \<Rightarrow> (map_option numError err, store p (UintCell (ucast v)) s))"
| "Value_Set L (uint64Value p) str s =
     (case ParseUint L str 0 64 of (v, err) \<Rightarrow> (map_option numError err, store p (Uint64Cell v) s))"

fun IsBoolFlag :: "Value \<Rightarrow> bool" where
  "IsBoolFlag (boolValue p) = True"
| "IsBoolFlag v = False"

text \<open>\<open>CommandLine.Set(name, value)\<close>.\<close>

definition f_Set :: "('f, 'x) stdlib_scheme \<Rightarrow> string \<Rightarrow> string \<Rightarrow> ('w::len word, 'f) proc
    \<Rightarrow> FlagError option \<times> ('w word, 'f) proc" where
  "f_Set L name str s =
     (case formal s name of
        None \<Rightarrow> (Some (errNoSuchFlag name), s)
      | Some flag \<Rightarrow>
          (case Value_Set L (Value flag) str s of
             (Some err, s1) \<Rightarrow> (Some err, s1)
           | (None, s1) \<Rightarrow> (None, s1\<lparr>actual := (actual s1)(name \<mapsto> flag)\<rparr>)))"

text \<open>
  \<open>parseOne\<close>: whether a flag was seen, the error, and the state. \<open>splitEq\<close> is its loop
  that cuts \<open>name=value\<close> at the first \<open>=\<close> that is not the first byte.
\<close>

fun splitEq :: "string \<Rightarrow> string \<Rightarrow> (string \<times> string) option" where
  "splitEq seen [] = None"
| "splitEq seen (c # cs) =
     (if c = CHR ''='' then Some (rev seen, cs) else splitEq (c # seen) cs)"

definition parseOne :: "('f, 'x) stdlib_scheme \<Rightarrow> ('w::len word, 'f) proc
    \<Rightarrow> bool \<times> ParseError option \<times> ('w word, 'f) proc" where
  "parseOne L s =
     (case args s of
        [] \<Rightarrow> (False, None, s)
      | a # rest \<Rightarrow>
          if length a < 2 \<or> hd a \<noteq> CHR ''-'' then (False, None, s)
          else if a = ''--'' then (False, None, s\<lparr>args := rest\<rparr>)
          else
            let numMinuses = (if a ! 1 = CHR ''-'' then 2 else 1);
                name0 = drop numMinuses a
            in if name0 = [] \<or> hd name0 = CHR ''-'' \<or> hd name0 = CHR ''='' then (False, Some (BadFlagSyntax a), s)
               else
                 let s1 = s\<lparr>args := rest\<rparr>;
                     (name, hasValue, str) =
                        (case splitEq [hd name0] (tl name0) of
                           None \<Rightarrow> (name0, False, [])
                         | Some (n, v) \<Rightarrow> (n, True, v))
                 in (case formal s1 name of
                       None \<Rightarrow>
                         if name = ''help'' \<or> name = ''h'' then (False, Some ErrHelp, s1)
                         else (False, Some (NotDefined name), s1)
                     | Some flag \<Rightarrow>
                         if IsBoolFlag (Value flag) then
                           (if hasValue then
                              (case Value_Set L (Value flag) str s1 of
                                 (Some err, s2) \<Rightarrow> (False, Some (InvalidBoolValue str name), s2)
                               | (None, s2) \<Rightarrow> (True, None, s2\<lparr>actual := (actual s2)(name \<mapsto> flag)\<rparr>))
                            else
                              (case Value_Set L (Value flag) ''true'' s1 of
                                 (Some err, s2) \<Rightarrow> (False, Some (InvalidBoolFlag name), s2)
                               | (None, s2) \<Rightarrow> (True, None, s2\<lparr>actual := (actual s2)(name \<mapsto> flag)\<rparr>)))
                         else
                           (case (if \<not> hasValue \<and> length (args s1) > 0
                                  then (True, hd (args s1), s1\<lparr>args := tl (args s1)\<rparr>)
                                  else (hasValue, str, s1)) of
                              (hasValue', str', s2) \<Rightarrow>
                                if \<not> hasValue' then (False, Some (NeedsArgument name), s2)
                                else
                                  (case Value_Set L (Value flag) str' s2 of
                                     (Some err, s3) \<Rightarrow> (False, Some (InvalidValue str' name), s3)
                                   | (None, s3) \<Rightarrow> (True, None, s3\<lparr>actual := (actual s3)(name \<mapsto> flag)\<rparr>)))))"

text \<open>
  \<open>CommandLine.Parse(arguments)\<close> calls \<open>parseOne\<close> until no flag is seen.
  \<open>CommandLine\<close> handles an error by leaving the process (\<open>ExitOnError\<close>): with status 0
  after \<open>-help\<close>, with status 2 otherwise.
\<close>

function parseAll :: "('f, 'x) stdlib_scheme \<Rightarrow> ('w::len word, 'f) proc \<Rightarrow> Fault + ('w word, 'f) proc" where
  "parseAll L s =
     (case parseOne L s of (seen, err, s1) \<Rightarrow>
        if seen then parseAll L s1
        else (case err of
                None \<Rightarrow> Inr s1
              | Some e \<Rightarrow> Inl (Exit (if e = ErrHelp then 0 else 2))))"
  by pat_completeness auto
termination
proof -
  have keep: "args s'' = args s'" if "Value_Set L v str s' = (e, s'')"
    for L :: "('f, 'x) stdlib_scheme" and v str e and s' s'' :: "('w::len word, 'f) proc"
    using that by (cases v) (auto simp: store_def split: prod.splits option.splits)
  have shorter: "length (args s1) < length (args s)" if "parseOne L s = (True, err, s1)"
    for L :: "('f, 'x) stdlib_scheme" and err and s s1 :: "('w::len word, 'f) proc"
  proof (cases "args s")
    case Nil
    with that show ?thesis by (simp add: parseOne_def)
  next
    case (Cons a rest)
    with that show ?thesis
      by (auto simp: parseOne_def Let_def
          split: if_splits option.splits prod.splits list.splits dest!: keep)
  qed
  show ?thesis
    by (relation "measure (\<lambda>(L, s). length (args s))") (auto dest: shorter [OF sym])
qed

declare parseAll.simps [simp del]

definition f_Parse :: "('f, 'x) stdlib_scheme \<Rightarrow> ('w::len word, 'f) proc \<Rightarrow> Fault + ('w word, 'f) proc" where
  "f_Parse L s =
     (case os_Args s of
        [] \<Rightarrow> Inl (Panic ''slice bounds out of range [1:0]'')
      | prog # arguments \<Rightarrow> parseAll L (s\<lparr>parsed := True, args := arguments\<rparr>))"

section \<open>flag.go: the constructors, Set and Parse\<close>

text \<open>
  Each constructor hands the flag package the default its resolver returns. A conversion
  between \<open>int\<close> and \<open>int64\<close> is \<open>scast\<close> (it keeps the sign), one between \<open>uint\<close> and
  \<open>uint64\<close> is \<open>ucast\<close>. A constructor that returns a pointer returns the address with the
  state; a panic of the flag package is \<open>Inl\<close>.
\<close>

definition Bool :: "('f, 'x) stdlib_scheme \<Rightarrow> string \<Rightarrow> bool \<Rightarrow> string \<Rightarrow> ('i, 'f) proc \<Rightarrow> Fault + (nat \<times> ('i, 'f) proc)" where
  "Bool L name value usage s = f_Bool name (boolFromEnv L s name value) usage s"

definition BoolVar :: "('f, 'x) stdlib_scheme \<Rightarrow> nat \<Rightarrow> string \<Rightarrow> bool \<Rightarrow> string \<Rightarrow> ('i, 'f) proc \<Rightarrow> Fault + ('i, 'f) proc" where
  "BoolVar L p name value usage s = f_BoolVar p name (boolFromEnv L s name value) usage s"

definition Duration :: "('f, 'x) stdlib_scheme \<Rightarrow> string \<Rightarrow> 64 word \<Rightarrow> string \<Rightarrow> ('i, 'f) proc \<Rightarrow> Fault + (nat \<times> ('i, 'f) proc)" where
  "Duration L name value usage s = f_Duration name (durationFromEnv L s name value) usage s"

definition DurationVar :: "('f, 'x) stdlib_scheme \<Rightarrow> nat \<Rightarrow> string \<Rightarrow> 64 word \<Rightarrow> string \<Rightarrow> ('i, 'f) proc \<Rightarrow> Fault + ('i, 'f) proc" where
  "DurationVar L p name value usage s = f_DurationVar p name (durationFromEnv L s name value) usage s"

definition Float64 :: "('f, 'x) stdlib_scheme \<Rightarrow> 'f \<Rightarrow> string \<Rightarrow> 'f \<Rightarrow> string \<Rightarrow> ('i, 'f) proc \<Rightarrow> Fault + (nat \<times> ('i, 'f) proc)" where
  "Float64 L fzero name value usage s = f_Float64 fzero name (float64FromEnv L s name value) usage s"

definition Float64Var :: "('f, 'x) stdlib_scheme \<Rightarrow> nat \<Rightarrow> string \<Rightarrow> 'f \<Rightarrow> string \<Rightarrow> ('i, 'f) proc \<Rightarrow> Fault + ('i, 'f) proc" where
  "Float64Var L p name value usage s = f_Float64Var p name (float64FromEnv L s name value) usage s"

text \<open>\<open>Int\<close> of flag.go (the name \<open>Int\<close> is taken in HOL).\<close>

definition Int_go :: "('f, 'x) stdlib_scheme \<Rightarrow> string \<Rightarrow> 'w::len word \<Rightarrow> string \<Rightarrow> ('w word, 'f) proc \<Rightarrow> Fault + (nat \<times> ('w word, 'f) proc)" where
  "Int_go L name value usage s = f_Int name (scast (int64FromEnv L s name (scast value))) usage s"

definition Int64 :: "('f, 'x) stdlib_scheme \<Rightarrow> string \<Rightarrow> 64 word \<Rightarrow> string \<Rightarrow> ('i, 'f) proc \<Rightarrow> Fault + (nat \<times> ('i, 'f) proc)" where
  "Int64 L name value usage s = f_Int64 name (int64FromEnv L s name value) usage s"

definition Int64Var :: "('f, 'x) stdlib_scheme \<Rightarrow> nat \<Rightarrow> string \<Rightarrow> 64 word \<Rightarrow> string \<Rightarrow> ('i, 'f) proc \<Rightarrow> Fault + ('i, 'f) proc" where
  "Int64Var L p name value usage s = f_Int64Var p name (int64FromEnv L s name value) usage s"

definition IntVar :: "('f, 'x) stdlib_scheme \<Rightarrow> nat \<Rightarrow> string \<Rightarrow> 'w::len word \<Rightarrow> string \<Rightarrow> ('w word, 'f) proc \<Rightarrow> Fault + ('w word, 'f) proc" where
  "IntVar L p name value usage s = f_IntVar p name (scast (int64FromEnv L s name (scast value))) usage s"

definition Parse :: "('f, 'x) stdlib_scheme \<Rightarrow> ('w::len word, 'f) proc \<Rightarrow> Fault + ('w word, 'f) proc" where
  "Parse L s = f_Parse L s"

definition Set :: "('f, 'x) stdlib_scheme \<Rightarrow> string \<Rightarrow> string \<Rightarrow> ('w::len word, 'f) proc \<Rightarrow> FlagError option \<times> ('w word, 'f) proc" where
  "Set L name value s = f_Set L name value s"

definition String :: "('f, 'x) stdlib_scheme \<Rightarrow> string \<Rightarrow> string \<Rightarrow> string \<Rightarrow> ('i, 'f) proc \<Rightarrow> Fault + (nat \<times> ('i, 'f) proc)" where
  "String L name value usage s = f_String name (stringFromEnv L s name value) usage s"

definition StringVar :: "('f, 'x) stdlib_scheme \<Rightarrow> nat \<Rightarrow> string \<Rightarrow> string \<Rightarrow> string \<Rightarrow> ('i, 'f) proc \<Rightarrow> Fault + ('i, 'f) proc" where
  "StringVar L p name value usage s = f_StringVar p name (stringFromEnv L s name value) usage s"

definition Uint :: "('f, 'x) stdlib_scheme \<Rightarrow> string \<Rightarrow> 'w::len word \<Rightarrow> string \<Rightarrow> ('w word, 'f) proc \<Rightarrow> Fault + (nat \<times> ('w word, 'f) proc)" where
  "Uint L name value usage s = f_Uint name (ucast (uint64FromEnv L s name (ucast value))) usage s"

definition Uint64 :: "('f, 'x) stdlib_scheme \<Rightarrow> string \<Rightarrow> 64 word \<Rightarrow> string \<Rightarrow> ('i, 'f) proc \<Rightarrow> Fault + (nat \<times> ('i, 'f) proc)" where
  "Uint64 L name value usage s = f_Uint64 name (uint64FromEnv L s name value) usage s"

definition Uint64Var :: "('f, 'x) stdlib_scheme \<Rightarrow> nat \<Rightarrow> string \<Rightarrow> 64 word \<Rightarrow> string \<Rightarrow> ('i, 'f) proc \<Rightarrow> Fault + ('i, 'f) proc" where
  "Uint64Var L p name value usage s = f_Uint64Var p name (uint64FromEnv L s name value) usage s"

text \<open>
  \<open>UintVar\<close> calls \<open>f.Uint\<close>: the flag package allocates the variable and returns its
  address, which \<open>UintVar\<close> drops; \<open>p\<close> is not used.
\<close>

definition UintVar :: "('f, 'x) stdlib_scheme \<Rightarrow> nat \<Rightarrow> string \<Rightarrow> 'w::len word \<Rightarrow> string \<Rightarrow> ('w word, 'f) proc \<Rightarrow> Fault + ('w word, 'f) proc" where
  "UintVar L p name value usage s =
     (case f_Uint name (ucast (uint64FromEnv L s name (ucast value))) usage s of
        Inl e \<Rightarrow> Inl e
      | Inr (q, s1) \<Rightarrow> Inr s1)"

section \<open>The verb extractor\<close>

text \<open>
  Modelled from the spec: \<open>GetVerbs\<close> is called by the package's test (with the table
  \<open>testCasesGetVerbs\<close>), but the file that defines it is not among the sources. The
  specification's contract \<open>extractVerbs(rawArgs)\<close> scans the tokens from the start and
  stops at the first one that begins with the flag marker \<open>-\<close>; it returns the tokens
  before it, in order. Its input is the raw argument vector without the program name; it
  is a query that changes no state.
\<close>

definition isFlagToken :: "string \<Rightarrow> bool" where
  "isFlagToken t = (case t of [] \<Rightarrow> False | c # cs \<Rightarrow> c = CHR ''-'')"

fun extractVerbs :: "string list \<Rightarrow> string list" where
  "extractVerbs [] = []"
| "extractVerbs (t # ts) = (if isFlagToken t then [] else t # extractVerbs ts)"

definition GetVerbs :: "('i, 'f) proc \<Rightarrow> string list \<times> ('i, 'f) proc" where
  "GetVerbs s = (extractVerbs (drop 1 (os_Args s)), s)"

section \<open>Integer literals, as the specification reads them\<close>

text \<open>
  The literals the specification names for an integer variable: a decimal literal (digits,
  the first not \<open>0\<close>), a hexadecimal literal (\<open>0x\<close> and hexadecimal digits), an octal
  literal (\<open>0\<close> and octal digits, which covers \<open>0\<close> itself). \<open>numberOf\<close> is the number
  a digit string denotes in a base; a signed literal has an optional sign in front.
\<close>

definition isDecDigit :: "char \<Rightarrow> bool" where
  "isDecDigit c = (48 \<le> byte c \<and> byte c \<le> 57)"

definition isOctDigit :: "char \<Rightarrow> bool" where
  "isOctDigit c = (48 \<le> byte c \<and> byte c \<le> 55)"

definition isHexDigit :: "char \<Rightarrow> bool" where
  "isHexDigit c = (isDecDigit c \<or> (97 \<le> byte c \<and> byte c \<le> 102) \<or> (65 \<le> byte c \<and> byte c \<le> 70))"

definition digitVal :: "char \<Rightarrow> nat" where
  "digitVal c = (if isDecDigit c then byte c - 48 else if 97 \<le> byte c then byte c - 87 else byte c - 55)"

definition numberOf :: "nat \<Rightarrow> string \<Rightarrow> nat" where
  "numberOf b ds = foldl (\<lambda>a c. a * b + digitVal c) 0 ds"

definition literalValue :: "string \<Rightarrow> nat option" where
  "literalValue s =
     (if s \<noteq> [] \<and> hd s \<noteq> CHR ''0'' \<and> list_all isDecDigit s then Some (numberOf 10 s)
      else if length s \<ge> 3 \<and> take 2 s = ''0x'' \<and> list_all isHexDigit (drop 2 s)
      then Some (numberOf 16 (drop 2 s))
      else if s \<noteq> [] \<and> hd s = CHR ''0'' \<and> list_all isOctDigit (tl s) then Some (numberOf 8 (tl s))
      else None)"

definition signedLiteralValue :: "string \<Rightarrow> int option" where
  "signedLiteralValue s =
     (case s of
        [] \<Rightarrow> None
      | c # cs \<Rightarrow>
          if c = CHR ''-'' then map_option (\<lambda>v. - int v) (literalValue cs)
          else if c = CHR ''+'' then map_option int (literalValue cs)
          else map_option int (literalValue s))"

section \<open>Concrete inputs for the examples\<close>

text \<open>
  A library whose Unicode mapping is the identity and whose float and duration parsers
  refuse every text (float64 values stand as integers here), and a process with the
  prefix \<open>APP\<close> and four variables set.
\<close>

definition exLib :: "int stdlib" where
  "exLib = \<lparr>IntSize = 32, mapUnicodeToUpper = (\<lambda>s. s),
            ParseFloat = (\<lambda>s. (0, Some ErrSyntax)), ParseDuration = (\<lambda>s. None)\<rparr>"

definition exWorld :: world where
  "exWorld = \<lparr>envPrefix = ''APP'',
              environ = [''APP_VERBOSE'' \<mapsto> ''True'', ''APP_RETRIES'' \<mapsto> ''abc'',
                         ''APP_MASK'' \<mapsto> ''0x1F'', ''APP_MODE'' \<mapsto> ''0755'']\<rparr>"

text \<open>
  The same process with a store (a \<open>uint\<close> at address 0, a \<open>uint64\<close> at address 1), no
  flag registered yet, on a platform with 32-bit \<open>int\<close>.
\<close>

definition exProc :: "(32 word, int) proc" where
  "exProc = \<lparr>envPrefix = ''APP'',
             environ = [''APP_VERBOSE'' \<mapsto> ''True'', ''APP_RETRIES'' \<mapsto> ''abc'',
                        ''APP_MASK'' \<mapsto> ''0x1F'', ''APP_MODE'' \<mapsto> ''0755''],
             heap = [0 \<mapsto> UintCell 0, 1 \<mapsto> Uint64Cell 0], brk = 2,
             formal = Map.empty, actual = Map.empty, args = [], parsed = False,
             os_Args = [''prog'', ''-n'', ''7'', ''-m'', ''9'']\<rparr>"

text \<open>The same process started with two verbs before the first flag.\<close>

definition exArgv :: "(32 word, int) proc" where
  "exArgv = exProc\<lparr>os_Args := [''prog'', ''deploy'', ''now'', ''-n'', ''7'']\<rparr>"

text \<open>
  The same process, on the 32-bit platform, with one variable set to a number that fits
  64 bits but not 32.
\<close>

definition exWide :: "(32 word, int) proc" where
  "exWide = exProc\<lparr>environ := [''APP_LIMIT'' \<mapsto> ''4294967296'']\<rparr>"

section \<open>Facts about the library functions\<close>

lemma Replace_map: "Replace s a b = map (\<lambda>c. if c = a then b else c) s"
  by (induction s) auto

lemma isASCII_Replace: "isASCII (Replace s (CHR ''-'') (CHR ''_'')) = isASCII s"
  by (induction s) (auto simp: isASCII_def byte_def)

lemma upperByte_underscore: "upperByte (CHR ''_'') = CHR ''_''"
  by (simp add: upperByte_def byte_def)

lemma cast_int_roundtrip:
  fixes n :: "'w::len word"
  assumes "LENGTH('w) \<le> 64"
  shows "(scast (scast n :: 64 word) :: 'w word) = n"
  by (rule scast_up_scast_id) (simp add: is_up assms)

lemma cast_uint_roundtrip:
  fixes n :: "'w::len word"
  assumes "LENGTH('w) \<le> 64"
  shows "(ucast (ucast n :: 64 word) :: 'w word) = n"
  by (rule ucast_up_ucast_id) (simp add: is_up assms)

lemma Index_None: "Index s sep = None \<longleftrightarrow> sep \<notin> set s"
  by (induction s) auto

lemma Index_Some:
  "Index s sep = Some m \<Longrightarrow> m < length s \<and> s ! m = sep \<and> sep \<notin> set (take m s)"
  by (induction s arbitrary: m) (auto split: if_splits)

lemma Index_Some_cut:
  assumes "Index s sep = Some m"
  shows "take m s @ sep # drop (Suc m) s = s"
  using Index_Some [OF assms] by (metis id_take_nth_drop)

lemma Count_zero: "Count s sep = 0 \<longleftrightarrow> sep \<notin> set s"
  by (induction s) auto

lemma Count_append: "Count (a @ b) sep = Count a sep + Count b sep"
  by (induction a) auto

lemma Count_after_Index:
  assumes "Index s sep = Some m"
  shows "Count s sep = Suc (Count (drop (Suc m) s) sep)"
proof -
  have "Count s sep = Count (take m s @ sep # drop (Suc m) s) sep"
    by (simp add: Index_Some_cut [OF assms])
  also have "\<dots> = Count (take m s) sep + Suc (Count (drop (Suc m) s) sep)"
    by (simp add: Count_append)
  also have "Count (take m s) sep = 0"
    using Index_Some [OF assms] by (simp add: Count_zero)
  finally show ?thesis by simp
qed

lemma Count_le_length: "Count s sep \<le> length s"
  by (induction s) auto

lemma genSplit_not_empty: "genSplit s sep k \<noteq> []"
  by (cases k) (auto split: option.splits)

lemma Join_Cons: "ys \<noteq> [] \<Longrightarrow> Join (x # ys) sep = x @ sep # Join ys sep"
  by (cases ys) auto

lemma genSplit_Join: "Join (genSplit s sep k) sep = s"
proof (induction k arbitrary: s)
  case 0
  show ?case by simp
next
  case (Suc k)
  show ?case
  proof (cases "Index s sep")
    case None
    then show ?thesis by simp
  next
    case (Some m)
    then show ?thesis
      using Suc.IH [of "drop (Suc m) s"] Index_Some_cut [OF Some]
      by (simp add: Join_Cons genSplit_not_empty)
  qed
qed

lemma genSplit_length: "Count s sep = k \<Longrightarrow> length (genSplit s sep k) = Suc k"
proof (induction k arbitrary: s)
  case 0
  show ?case by simp
next
  case (Suc k)
  then obtain m where m: "Index s sep = Some m"
    by (cases "Index s sep") (auto simp: Index_None Count_zero [symmetric])
  with Suc show ?case
    using Count_after_Index [OF m] by simp
qed

lemma genSplit_pieces: "Count s sep = k \<Longrightarrow> list_all (\<lambda>piece. sep \<notin> set piece) (genSplit s sep k)"
proof (induction k arbitrary: s)
  case 0
  then show ?case by (simp add: Count_zero)
next
  case (Suc k)
  then obtain m where m: "Index s sep = Some m"
    by (cases "Index s sep") (auto simp: Index_None Count_zero [symmetric])
  with Suc show ?case
    using Count_after_Index [OF m] Index_Some [OF m] by simp
qed

lemma Split_genSplit: "Split s sep = genSplit s sep (Count s sep)"
  using Count_le_length [of s sep] by (simp add: Split_def min_def)

text \<open>Parsing leaves \<open>os.Args\<close> as it is.\<close>

lemma Value_Set_os_Args: "os_Args (snd (Value_Set L v str s)) = os_Args s"
  by (cases v) (auto simp: store_def split: prod.splits option.splits)

lemma Value_Set_os_Args': "Value_Set L v str s' = (e, s'') \<Longrightarrow> os_Args s'' = os_Args s'"
  using Value_Set_os_Args [of L v str s'] by simp

lemma parseOne_os_Args:
  assumes "parseOne L s = (seen, err, s1)"
  shows "os_Args s1 = os_Args s"
proof (cases "args s")
  case Nil
  with assms show ?thesis by (simp add: parseOne_def)
next
  case (Cons a rest)
  with assms show ?thesis
    by (auto simp: parseOne_def Let_def
        split: if_splits option.splits prod.splits list.splits dest!: Value_Set_os_Args')
qed

lemma parseAll_os_Args: "parseAll L s = Inr s' \<Longrightarrow> os_Args s' = os_Args s"
proof (induction L s rule: parseAll.induct)
  case (1 L s)
  obtain seen err s1 where p: "parseOne L s = (seen, err, s1)"
    by (cases "parseOne L s") auto
  have o: "os_Args s1 = os_Args s"
    using p by (rule parseOne_os_Args)
  show ?case
  proof (cases seen)
    case True
    with "1.prems" p have "parseAll L s1 = Inr s'"
      by (simp add: parseAll.simps [of L s])
    with "1.IH" [OF p [symmetric] refl True] o show ?thesis
      by simp
  next
    case False
    with "1.prems" p have "s' = s1"
      by (auto simp: parseAll.simps [of L s] split: option.splits)
    with o show ?thesis by simp
  qed
qed

lemma Parse_os_Args: "Parse L s = Inr s' \<Longrightarrow> os_Args s' = os_Args s"
  by (auto simp: Parse_def f_Parse_def split: list.splits dest!: parseAll_os_Args)


section \<open>The name of the environment variable\<close>

text \<open>
  C5. The environment variable of a flag is the upper-cased, hyphen-replaced text of
  \<open>prefix_name\<close>, or of the name alone when the prefix is empty. On ASCII text that is,
  byte by byte, \<open>_\<close> for \<open>-\<close> and the capital for a small letter. With the prefix \<open>APP\<close>
  the flag \<open>max-retries\<close> reads \<open>APP_MAX_RETRIES\<close>, with the empty prefix
  \<open>MAX_RETRIES\<close>, whatever the library parameters and the rest of the state are.
\<close>

theorem envNameForFlagName_shape:
  "envNameForFlagName L w name =
     (if envPrefix w = [] then ToUpper L (Replace name (CHR ''-'') (CHR ''_''))
      else ToUpper L (Replace (envPrefix w @ ''_'' @ name) (CHR ''-'') (CHR ''_'')))
   \<and> (isASCII (envPrefix w @ name) \<longrightarrow>
        envNameForFlagName L w name =
          map (\<lambda>c. if c = CHR ''-'' then CHR ''_'' else upperByte c)
            (if envPrefix w = [] then name else envPrefix w @ ''_'' @ name))
   \<and> envNameForFlagName L (w\<lparr>envPrefix := ''APP''\<rparr>) ''max-retries'' = ''APP_MAX_RETRIES''
   \<and> envNameForFlagName L (w\<lparr>envPrefix := []\<rparr>) ''max-retries'' = ''MAX_RETRIES''"
proof (intro conjI impI)
  show "envNameForFlagName L w name =
     (if envPrefix w = [] then ToUpper L (Replace name (CHR ''-'') (CHR ''_''))
      else ToUpper L (Replace (envPrefix w @ ''_'' @ name) (CHR ''-'') (CHR ''_'')))"
    by (simp add: envNameForFlagName_def)
next
  assume a: "isASCII (envPrefix w @ name)"
  define s where "s = (if envPrefix w = [] then name else envPrefix w @ ''_'' @ name)"
  have "isASCII s" using a by (simp add: s_def isASCII_def byte_def)
  then have "ToUpper L (Replace s (CHR ''-'') (CHR ''_'')) = map upperByte (Replace s (CHR ''-'') (CHR ''_''))"
    by (simp add: ToUpper_def isASCII_Replace)
  also have "\<dots> = map (\<lambda>c. if c = CHR ''-'' then CHR ''_'' else upperByte c) s"
    by (simp add: Replace_map upperByte_underscore)
  finally have "ToUpper L (Replace s (CHR ''-'') (CHR ''_''))
      = map (\<lambda>c. if c = CHR ''-'' then CHR ''_'' else upperByte c) s" .
  moreover have "envNameForFlagName L w name = ToUpper L (Replace s (CHR ''-'') (CHR ''_''))"
    by (simp add: envNameForFlagName_def s_def)
  ultimately show "envNameForFlagName L w name =
          map (\<lambda>c. if c = CHR ''-'' then CHR ''_'' else upperByte c)
            (if envPrefix w = [] then name else envPrefix w @ ''_'' @ name)"
    unfolding s_def by simp
next
  show "envNameForFlagName L (w\<lparr>envPrefix := ''APP''\<rparr>) ''max-retries'' = ''APP_MAX_RETRIES''"
    by (simp add: envNameForFlagName_def ToUpper_def isASCII_def upperByte_def byte_def
        char_of_def bit_Suc bit_Suc_0_iff)
next
  show "envNameForFlagName L (w\<lparr>envPrefix := []\<rparr>) ''max-retries'' = ''MAX_RETRIES''"
    by (simp add: envNameForFlagName_def ToUpper_def isASCII_def upperByte_def byte_def
        char_of_def bit_Suc bit_Suc_0_iff)
qed

theorem envNameForFlagName_shape_witness:
  "isASCII (envPrefix exWorld @ ''log-level'')
   \<and> envNameForFlagName exLib exWorld ''log-level'' = ''APP_LOG_LEVEL''"
proof -
  have a: "isASCII (envPrefix exWorld @ ''log-level'')"
    by code_simp
  have m: "map (\<lambda>c. if c = CHR ''-'' then CHR ''_'' else upperByte c)
        (if envPrefix exWorld = [] then ''log-level'' else envPrefix exWorld @ ''_'' @ ''log-level'')
      = ''APP_LOG_LEVEL''"
    by code_simp
  have "envNameForFlagName exLib exWorld ''log-level'' =
      map (\<lambda>c. if c = CHR ''-'' then CHR ''_'' else upperByte c)
        (if envPrefix exWorld = [] then ''log-level'' else envPrefix exWorld @ ''_'' @ ''log-level'')"
    using envNameForFlagName_shape [of exLib exWorld "''log-level''"] a by blast
  then have "envNameForFlagName exLib exWorld ''log-level'' = ''APP_LOG_LEVEL''"
    by (rule trans) (rule m)
  with a show ?thesis by (rule_tac conjI)
qed

section \<open>The boolean resolver\<close>

text \<open>
  C2. When the environment variable of a bool flag is set, the effective default is true
  exactly when its value is the text \<open>true\<close>, whatever the declared default is.
\<close>

theorem boolFromEnv_set:
  assumes "LookupEnv w (envNameForFlagName L w name) = Some val"
  shows "boolFromEnv L w name value = (val = ''true'')"
  using assms by (simp add: boolFromEnv_def)

theorem boolFromEnv_set_witness:
  "LookupEnv exWorld (envNameForFlagName exLib exWorld ''verbose'') = Some ''True''
   \<and> boolFromEnv exLib exWorld ''verbose'' True = False"
proof -
  have h: "LookupEnv exWorld (envNameForFlagName exLib exWorld ''verbose'') = Some ''True''"
    by code_simp
  from boolFromEnv_set [OF h, of True] h show ?thesis by simp
qed

section \<open>Setting the prefix\<close>

text \<open>
  C10. \<open>SetEnvPrefix\<close> overwrites the prefix: it is a total function with no error
  result, and after any sequence of calls and a last one with \<open>p\<close> the state is the
  first state with the prefix \<open>p\<close>: the earlier prefixes have left nothing, the
  environment is untouched, and the environment variable of a flag is computed from \<open>p\<close>
  alone.
\<close>

theorem SetEnvPrefix_last_wins:
  "SetEnvPrefix p (fold SetEnvPrefix ps w) = w\<lparr>envPrefix := p\<rparr>
   \<and> envPrefix (SetEnvPrefix p (fold SetEnvPrefix ps w)) = p
   \<and> environ (SetEnvPrefix p (fold SetEnvPrefix ps w)) = environ w
   \<and> envNameForFlagName L (SetEnvPrefix p (fold SetEnvPrefix ps w)) name
       = ToUpper L (Replace (if p = [] then name else p @ ''_'' @ name) (CHR ''-'') (CHR ''_''))"
proof -
  have st: "SetEnvPrefix p (fold SetEnvPrefix ps w) = w\<lparr>envPrefix := p\<rparr>"
    for p and w :: "'a world_scheme"
  proof (induction ps arbitrary: w)
    case Nil
    show ?case by (simp add: SetEnvPrefix_def)
  next
    case (Cons q qs)
    have "SetEnvPrefix p (fold SetEnvPrefix (q # qs) w) = SetEnvPrefix p (fold SetEnvPrefix qs (SetEnvPrefix q w))"
      by simp
    also have "\<dots> = (SetEnvPrefix q w)\<lparr>envPrefix := p\<rparr>"
      by (rule Cons.IH)
    also have "\<dots> = w\<lparr>envPrefix := p\<rparr>"
      by (simp add: SetEnvPrefix_def)
    finally show ?case .
  qed
  show ?thesis
    unfolding st by (simp add: envNameForFlagName_def)
qed

section \<open>The resolvers when the variable is unset or malformed\<close>

text \<open>
  C4. When the environment variable of the flag is unset, every resolver returns the
  declared default: the six resolvers of flag.go on their own types, and the \<open>int\<close> and
  \<open>uint\<close> constructors, which go through int64 and uint64 and back, hand the flag
  package the declared default itself (\<open>int\<close> is at most 64 bits wide).
\<close>

theorem unset_keeps_declared_default:
  fixes s :: "('w::len word, 'f) proc" and n m :: "'w word"
  assumes unset: "LookupEnv s (envNameForFlagName L s name) = None"
    and width: "LENGTH('w) \<le> 64"
  shows "boolFromEnv L s name b = b
       \<and> durationFromEnv L s name d = d
       \<and> float64FromEnv L s name x = x
       \<and> int64FromEnv L s name i = i
       \<and> uint64FromEnv L s name u = u
       \<and> stringFromEnv L s name t = t
       \<and> Int_go L name n usage s = f_Int name n usage s
       \<and> IntVar L p name n usage s = f_IntVar p name n usage s
       \<and> Uint L name m usage s = f_Uint name m usage s"
  using unset
  by (simp add: boolFromEnv_def durationFromEnv_def float64FromEnv_def int64FromEnv_def
      uint64FromEnv_def stringFromEnv_def Int_go_def IntVar_def Uint_def
      cast_int_roundtrip [OF width] cast_uint_roundtrip [OF width])

theorem unset_keeps_declared_default_witness:
  "LookupEnv exProc (envNameForFlagName exLib exProc ''timeout'') = None
   \<and> LENGTH(32) \<le> (64::nat)
   \<and> boolFromEnv exLib exProc ''timeout'' True = True
   \<and> int64FromEnv exLib exProc ''timeout'' 30 = 30
   \<and> stringFromEnv exLib exProc ''timeout'' ''30s'' = ''30s''
   \<and> Int_go exLib ''timeout'' 30 ''wait'' exProc = f_Int ''timeout'' 30 ''wait'' exProc"
proof -
  have h: "LookupEnv exProc (envNameForFlagName exLib exProc ''timeout'') = None"
    by code_simp
  have w: "LENGTH(32) \<le> (64::nat)" by simp
  from unset_keeps_declared_default [OF h w] h w show ?thesis by simp
qed

text \<open>
  The fallback of the typed resolvers, on the resolver's own parser: when the variable is
  set to a text that the parser refuses, the resolver returns the declared default; no
  error is part of its result. The parsers are \<open>ParseInt(val, 0, 64)\<close> for \<open>int\<close> and
  \<open>int64\<close>, \<open>ParseUint(val, 0, 64)\<close> for \<open>uint\<close> and \<open>uint64\<close>, \<open>ParseFloat(val, 64)\<close>
  and \<open>ParseDuration(val)\<close>. Where \<open>int\<close> is 64 bits wide this is the parse of the flag's
  type for every flag.
\<close>

theorem malformed_falls_back:
  fixes s :: "('w::len word, 'f) proc" and n m :: "'w word"
  assumes isset: "LookupEnv s (envNameForFlagName L s name) = Some val"
    and width: "LENGTH('w) \<le> 64"
  shows "(snd (ParseInt L val 0 64) \<noteq> None \<longrightarrow>
            int64FromEnv L s name i = i
          \<and> Int_go L name n usage s = f_Int name n usage s
          \<and> IntVar L p name n usage s = f_IntVar p name n usage s)
       \<and> (snd (ParseUint L val 0 64) \<noteq> None \<longrightarrow>
            uint64FromEnv L s name u = u
          \<and> Uint L name m usage s = f_Uint name m usage s)
       \<and> (snd (ParseFloat L val) \<noteq> None \<longrightarrow> float64FromEnv L s name x = x)
       \<and> (ParseDuration L val = None \<longrightarrow> durationFromEnv L s name d = d)"
  using isset
  by (auto simp: durationFromEnv_def float64FromEnv_def int64FromEnv_def
      uint64FromEnv_def Int_go_def IntVar_def Uint_def
      cast_int_roundtrip [OF width] cast_uint_roundtrip [OF width] split: prod.splits)

theorem malformed_falls_back_witness:
  "LookupEnv exProc (envNameForFlagName exLib exProc ''retries'') = Some ''abc''
   \<and> LENGTH(32) \<le> (64::nat)
   \<and> snd (ParseInt exLib ''abc'' 0 64) \<noteq> None
   \<and> snd (ParseUint exLib ''abc'' 0 64) \<noteq> None
   \<and> snd (ParseFloat exLib ''abc'') \<noteq> None
   \<and> ParseDuration exLib ''abc'' = None
   \<and> int64FromEnv exLib exProc ''retries'' 3 = 3
   \<and> uint64FromEnv exLib exProc ''retries'' 3 = 3
   \<and> float64FromEnv exLib exProc ''retries'' 3 = 3
   \<and> durationFromEnv exLib exProc ''retries'' 3 = 3
   \<and> Int_go exLib ''retries'' 3 ''tries'' exProc = f_Int ''retries'' 3 ''tries'' exProc
   \<and> Uint exLib ''retries'' 3 ''tries'' exProc = f_Uint ''retries'' 3 ''tries'' exProc"
proof -
  have h: "LookupEnv exProc (envNameForFlagName exLib exProc ''retries'') = Some ''abc''"
    by code_simp
  have w: "LENGTH(32) \<le> (64::nat)" by simp
  have pi: "snd (ParseInt exLib ''abc'' 0 64) \<noteq> None" by code_simp
  have pu: "snd (ParseUint exLib ''abc'' 0 64) \<noteq> None" by code_simp
  have pf: "snd (ParseFloat exLib ''abc'') \<noteq> None" by code_simp
  have pd: "ParseDuration exLib ''abc'' = None" by code_simp
  from malformed_falls_back [OF h w] h w pi pu pf pd show ?thesis by simp
qed

text \<open>
  C3. The claim is that a value that fails to parse for the type of the flag gives the
  declared default. Where \<open>int\<close> is 32 bits wide (the process \<open>exWide\<close>, with the variable
  of the flag \<open>limit\<close> set to 4294967296) the text is out of range for \<open>int\<close> and for
  \<open>uint\<close>: \<open>ParseInt\<close> and \<open>ParseUint\<close> with bit size 32 return a range error, and the
  flag package's own \<open>Set\<close> refuses the text for the flag. It parses in 64 bits, so
  \<open>Int\<close> and \<open>Uint\<close> with the declared default 42 hand the flag package the number cut
  to 32 bits, which is 0, and not 42.
\<close>

theorem int_flag_wraps_out_of_range_value:
  "LookupEnv exWide (envNameForFlagName exLib exWide ''limit'') = Some ''4294967296''
   \<and> ParseInt exLib ''4294967296'' 0 32 = (2147483647, Some ErrRange)
   \<and> ParseUint exLib ''4294967296'' 0 32 = (4294967295, Some ErrRange)
   \<and> ParseInt exLib ''4294967296'' 0 64 = (4294967296, None)
   \<and> ParseUint exLib ''4294967296'' 0 64 = (4294967296, None)
   \<and> Int_go exLib ''limit'' 42 ''max'' exWide = f_Int ''limit'' 0 ''max'' exWide
   \<and> Int_go exLib ''limit'' 42 ''max'' exWide \<noteq> f_Int ''limit'' 42 ''max'' exWide
   \<and> Uint exLib ''limit'' 42 ''max'' exWide = f_Uint ''limit'' 0 ''max'' exWide
   \<and> Uint exLib ''limit'' 42 ''max'' exWide \<noteq> f_Uint ''limit'' 42 ''max'' exWide
   \<and> (case Int_go exLib ''limit'' 42 ''max'' exWide of
         Inl e \<Rightarrow> False
       | Inr (q, s1) \<Rightarrow>
           heap s1 q = Some (IntCell 0)
         \<and> fst (Set exLib ''limit'' ''4294967296'' s1) = Some errRange)"
proof -
  have h: "LookupEnv exWide (envNameForFlagName exLib exWide ''limit'') = Some ''4294967296''"
    by (simp add: exWide_def exProc_def exLib_def LookupEnv_def envNameForFlagName_def ToUpper_def
        isASCII_def upperByte_def byte_def char_of_def bit_Suc bit_Suc_0_iff)
  have i32: "ParseInt exLib ''4294967296'' 0 32 = (2147483647, Some ErrRange)" by code_simp
  have u32: "ParseUint exLib ''4294967296'' 0 32 = (4294967295, Some ErrRange)" by code_simp
  have i64: "ParseInt exLib ''4294967296'' 0 64 = (4294967296, None)" by code_simp
  have u64: "ParseUint exLib ''4294967296'' 0 64 = (4294967296, None)" by code_simp
  have icell: "(case f_Int ''limit'' v ''max'' exWide of Inl e \<Rightarrow> None | Inr (q, s1) \<Rightarrow> heap s1 q)
      = Some (IntCell v)" for v :: "32 word"
    by (simp add: f_Int_def f_New_def f_VarAt_def new_def assign_def f_Var_def exWide_def exProc_def)
  have ucell: "(case f_Uint ''limit'' v ''max'' exWide of Inl e \<Rightarrow> None | Inr (q, s1) \<Rightarrow> heap s1 q)
      = Some (UintCell v)" for v :: "32 word"
    by (simp add: f_Uint_def f_New_def f_VarAt_def new_def assign_def f_Var_def exWide_def exProc_def)
  have si: "(scast (4294967296 :: 64 word) :: 32 word) = 0"
    by code_simp
  have su: "(ucast (4294967296 :: 64 word) :: 32 word) = 0"
    by code_simp
  have "int64FromEnv exLib exWide ''limit'' (scast (42 :: 32 word)) = 4294967296"
    by (simp only: int64FromEnv_def h i64 option.case prod.case)
  then have ie: "Int_go exLib ''limit'' 42 ''max'' exWide = f_Int ''limit'' 0 ''max'' exWide"
    by (simp only: Int_go_def si)
  have "uint64FromEnv exLib exWide ''limit'' (ucast (42 :: 32 word)) = 4294967296"
    by (simp only: uint64FromEnv_def h u64 option.case prod.case)
  then have ue: "Uint exLib ''limit'' 42 ''max'' exWide = f_Uint ''limit'' 0 ''max'' exWide"
    by (simp only: Uint_def su)
  have ine: "f_Int ''limit'' (0::32 word) ''max'' exWide \<noteq> f_Int ''limit'' 42 ''max'' exWide"
  proof
    assume "f_Int ''limit'' (0::32 word) ''max'' exWide = f_Int ''limit'' 42 ''max'' exWide"
    with icell [of 0] icell [of 42] show False by simp
  qed
  have une: "f_Uint ''limit'' (0::32 word) ''max'' exWide \<noteq> f_Uint ''limit'' 42 ''max'' exWide"
  proof
    assume "f_Uint ''limit'' (0::32 word) ''max'' exWide = f_Uint ''limit'' 42 ''max'' exWide"
    with ucell [of 0] ucell [of 42] show False by simp
  qed
  have st: "(case f_Int ''limit'' (0::32 word) ''max'' exWide of
         Inl e \<Rightarrow> False
       | Inr (q, s1) \<Rightarrow>
           heap s1 q = Some (IntCell 0)
         \<and> fst (Set exLib ''limit'' ''4294967296'' s1) = Some errRange)"
    by (simp add: f_Int_def f_New_def f_VarAt_def new_def assign_def f_Var_def exWide_def exProc_def
        Set_def f_Set_def i32 exLib_def [symmetric] numError_def store_def)
  show ?thesis
    using h i32 u32 i64 u64 ine une st by (simp add: ie ue)
qed

section \<open>Splitting a list\<close>

text \<open>
  C7. \<open>ListFromString\<close> cuts the text at every comma and nowhere else: it never returns
  an empty list, it returns one piece more than there are commas, joining the pieces
  with commas gives the text back (nothing is trimmed or unescaped), and no piece holds
  a comma. It is a total function: there is no failure. \<open>a,b,c\<close> gives three pieces, the
  empty text gives the one empty piece, \<open>a\<close> gives itself.
\<close>

theorem ListFromString_splits:
  "ListFromString s \<noteq> []
   \<and> length (ListFromString s) = Count s (CHR '','') + 1
   \<and> Join (ListFromString s) (CHR '','') = s
   \<and> list_all (\<lambda>piece. CHR '','' \<notin> set piece) (ListFromString s)
   \<and> ListFromString ''a,b,c'' = [''a'', ''b'', ''c'']
   \<and> ListFromString '''' = ['''']
   \<and> ListFromString ''a'' = [''a'']"
proof (intro conjI)
  show "ListFromString s \<noteq> []"
    by (simp add: ListFromString_def Split_genSplit genSplit_not_empty)
  show "length (ListFromString s) = Count s (CHR '','') + 1"
    by (simp add: ListFromString_def Split_genSplit genSplit_length)
  show "Join (ListFromString s) (CHR '','') = s"
    by (simp add: ListFromString_def Split_genSplit genSplit_Join)
  show "list_all (\<lambda>piece. CHR '','' \<notin> set piece) (ListFromString s)"
    by (simp add: ListFromString_def Split_genSplit genSplit_pieces)
  show "ListFromString ''a,b,c'' = [''a'', ''b'', ''c'']" by code_simp
  show "ListFromString '''' = ['''']" by code_simp
  show "ListFromString ''a'' = [''a'']" by code_simp
qed

section \<open>Verbs\<close>

text \<open>
  C6. The verb extractor returns \<open>single-verb\<close>, nothing, and the two verbs on the three
  argument vectors of the test table; on every vector it returns the longest prefix of
  tokens that do not begin with \<open>-\<close>: the vector is the verbs followed by a rest that is
  empty or begins with a flag token.
\<close>

theorem extractVerbs_prefix:
  "extractVerbs [''single-verb'', ''-test'', ''1''] = [''single-verb'']
   \<and> extractVerbs [''-test'', ''1''] = []
   \<and> extractVerbs [''two-verb'', ''two-second-verb'', ''-test'', ''1''] = [''two-verb'', ''two-second-verb'']
   \<and> (\<exists>rest. rawArgs = extractVerbs rawArgs @ rest
         \<and> list_all (\<lambda>t. \<not> isFlagToken t) (extractVerbs rawArgs)
         \<and> (rest = [] \<or> isFlagToken (hd rest)))"
proof (intro conjI)
  show "extractVerbs [''single-verb'', ''-test'', ''1''] = [''single-verb'']" by code_simp
  show "extractVerbs [''-test'', ''1''] = []" by code_simp
  show "extractVerbs [''two-verb'', ''two-second-verb'', ''-test'', ''1''] = [''two-verb'', ''two-second-verb'']"
    by code_simp
  show "\<exists>rest. rawArgs = extractVerbs rawArgs @ rest
         \<and> list_all (\<lambda>t. \<not> isFlagToken t) (extractVerbs rawArgs)
         \<and> (rest = [] \<or> isFlagToken (hd rest))"
  proof (induction rawArgs)
    case Nil
    show ?case by simp
  next
    case (Cons t ts)
    then obtain rest where r: "ts = extractVerbs ts @ rest"
      "list_all (\<lambda>t. \<not> isFlagToken t) (extractVerbs ts)" "rest = [] \<or> isFlagToken (hd rest)"
      by blast
    show ?case
    proof (cases "isFlagToken t")
      case True
      then show ?thesis by (intro exI [of _ "t # ts"]) simp
    next
      case False
      with r show ?thesis by (intro exI [of _ rest]) simp
    qed
  qed
qed

text \<open>
  C9. The verb extractor is a query: it returns the state it was given, so a second call
  returns what the first did. After a parse that returns, the verbs are those of the raw
  argument vector the parse started from, which parsing does not change.
\<close>

theorem GetVerbs_pure_query:
  "snd (GetVerbs s) = s
   \<and> fst (GetVerbs (snd (GetVerbs s))) = fst (GetVerbs s)
   \<and> (Parse L s0 = Inr s \<longrightarrow>
        fst (GetVerbs s) = extractVerbs (drop 1 (os_Args s0))
      \<and> GetVerbs (snd (GetVerbs s)) = GetVerbs s)"
proof (intro conjI impI)
  show "snd (GetVerbs s) = s" by (simp add: GetVerbs_def)
  show "fst (GetVerbs (snd (GetVerbs s))) = fst (GetVerbs s)" by (simp add: GetVerbs_def)
next
  assume "Parse L s0 = Inr s"
  then have "os_Args s = os_Args s0" by (rule Parse_os_Args)
  then show "fst (GetVerbs s) = extractVerbs (drop 1 (os_Args s0))"
    by (simp add: GetVerbs_def)
next
  show "GetVerbs (snd (GetVerbs s)) = GetVerbs s" by (simp add: GetVerbs_def)
qed

theorem GetVerbs_pure_query_witness:
  "Parse exLib exArgv = Inr (exArgv\<lparr>args := [''deploy'', ''now'', ''-n'', ''7''], parsed := True\<rparr>)
   \<and> fst (GetVerbs (exArgv\<lparr>args := [''deploy'', ''now'', ''-n'', ''7''], parsed := True\<rparr>))
       = [''deploy'', ''now'']
   \<and> GetVerbs (snd (GetVerbs (exArgv\<lparr>args := [''deploy'', ''now'', ''-n'', ''7''], parsed := True\<rparr>)))
       = GetVerbs (exArgv\<lparr>args := [''deploy'', ''now'', ''-n'', ''7''], parsed := True\<rparr>)"
proof -
  let ?s = "exArgv\<lparr>args := [''deploy'', ''now'', ''-n'', ''7''], parsed := True\<rparr>"
  have p: "Parse exLib exArgv = Inr ?s"
    by (simp add: Parse_def f_Parse_def exArgv_def exProc_def exLib_def parseAll.simps parseOne_def)
  have e: "extractVerbs (drop 1 (os_Args exArgv)) = [''deploy'', ''now'']"
    by (simp add: exArgv_def isFlagToken_def)
  have "fst (GetVerbs ?s) = extractVerbs (drop 1 (os_Args exArgv))
      \<and> GetVerbs (snd (GetVerbs ?s)) = GetVerbs ?s"
    using GetVerbs_pure_query [of ?s exLib exArgv] p by blast
  with p e show ?thesis by (simp only: simp_thms)
qed

section \<open>The storage of an unsigned flag\<close>

text \<open>
  What the two kinds of registration do to the store: a flag registered by a \<open>Var\<close>
  function of the flag package lives at the caller's address; one registered by the
  allocating function lives at the fresh address \<open>brk\<close>. \<open>UintVar\<close> of flag.go calls the
  allocating function, so the cell at \<open>p\<close> is never written; \<open>Uint64Var\<close> stores the
  effective default at \<open>p\<close>.
\<close>

lemma f_New_heap:
  assumes "f_New mk zero name c usage s = Inr (q, s1)"
  shows "q = brk s \<and> heap s1 = (heap s)(brk s \<mapsto> c) \<and> brk s1 = Suc (brk s)
       \<and> formal s1 = (formal s)(name \<mapsto> \<lparr>Name = name, Usage = usage, Value = mk (brk s)\<rparr>)"
  using assms
  by (auto simp: f_New_def new_def f_VarAt_def assign_def f_Var_def
      split: sum.splits if_splits option.splits)

lemma f_VarAt_heap:
  assumes "f_VarAt mk p name c usage s = Inr s1"
  shows "heap s1 = (heap s)(p \<mapsto> c)
       \<and> formal s1 = (formal s)(name \<mapsto> \<lparr>Name = name, Usage = usage, Value = mk p\<rparr>)"
  using assms
  by (auto simp: f_VarAt_def assign_def f_Var_def split: sum.splits if_splits option.splits)

lemma UintVar_leaves_p:
  fixes s :: "('w::len word, 'f) proc"
  assumes "UintVar L p name value usage s = Inr s1" and "p < brk s"
  shows "heap s1 p = heap s p
       \<and> map_option Value (formal s1 name) = Some (uintValue (brk s))
       \<and> heap s1 (brk s) = Some (UintCell (ucast (uint64FromEnv L s name (ucast value))))"
proof -
  from assms(1) obtain q where
    "f_Uint name (ucast (uint64FromEnv L s name (ucast value)) :: 'w word) usage s = Inr (q, s1)"
    by (auto simp: UintVar_def split: sum.splits)
  then have "f_New uintValue (UintCell 0) name
      (UintCell (ucast (uint64FromEnv L s name (ucast value)) :: 'w word)) usage s = Inr (q, s1)"
    by (simp add: f_Uint_def)
  from f_New_heap [OF this] assms(2) show ?thesis by simp
qed

lemma Uint64Var_stores_at_p:
  assumes "Uint64Var L p name value usage s = Inr s1"
  shows "heap s1 p = Some (Uint64Cell (uint64FromEnv L s name value))
       \<and> map_option Value (formal s1 name) = Some (uint64Value p)"
  using f_VarAt_heap [of uint64Value p name "Uint64Cell (uint64FromEnv L s name value)" usage s s1] assms
  by (simp add: Uint64Var_def f_Uint64Var_def)

text \<open>
  C1. The claim is that \<open>UintVar(p, \<dots>)\<close> registers a flag stored at \<open>p\<close>. On the process
  \<open>exProc\<close> (a \<open>uint\<close> 0 at address 0, a \<open>uint64\<close> at address 1, the command line
  \<open>-n 7 -m 9\<close>), \<open>UintVar(0, "n", 5, \<dots>)\<close> leaves the cell at 0 as it was and registers
  \<open>n\<close> on the new address 2, which holds the default 5; after \<open>Uint64Var(1, "m", 5, \<dots>)\<close>
  the cell at 1 holds 5; after \<open>Parse\<close> the cell at 0 still holds 0, while the value 7 of
  \<open>-n\<close> is at address 2 and the value 9 of \<open>-m\<close> is at the caller's address 1.
\<close>

theorem UintVar_drops_its_pointer:
  "(case UintVar exLib 0 ''n'' 5 ''count'' exProc of
      Inl e \<Rightarrow> False
    | Inr s1 \<Rightarrow>
        heap s1 0 = Some (UintCell 0)
      \<and> heap s1 2 = Some (UintCell 5)
      \<and> map_option Value (formal s1 ''n'') = Some (uintValue 2)
      \<and> (case Uint64Var exLib 1 ''m'' 5 ''size'' s1 of
            Inl e \<Rightarrow> False
          | Inr s2 \<Rightarrow>
              heap s2 1 = Some (Uint64Cell 5)
            \<and> map_option Value (formal s2 ''m'') = Some (uint64Value 1)
            \<and> (case Parse exLib s2 of
                  Inl e \<Rightarrow> False
                | Inr s3 \<Rightarrow>
                    heap s3 0 = Some (UintCell 0)
                  \<and> heap s3 2 = Some (UintCell 7)
                  \<and> heap s3 1 = Some (Uint64Cell 9))))"
  by (simp add: UintVar_def Uint64Var_def f_Uint_def f_Uint64Var_def f_New_def f_VarAt_def new_def
      assign_def f_Var_def uint64FromEnv_def LookupEnv_def envNameForFlagName_def ToUpper_def
      isASCII_def upperByte_def byte_def char_of_def bit_Suc bit_Suc_0_iff
      exProc_def exLib_def Parse_def f_Parse_def parseAll.simps parseOne_def store_def
      ParseUint_def pickBase_def digitOf_def lower_def maxUint64_def Let_def)

section \<open>The loop of ParseUint on a digit string\<close>

text \<open>
  On digits that are valid in the base, and as long as the number read fits 64 bits, the
  loop neither reports an error nor wraps around: it returns the number.
\<close>

lemma unat_of_nat_small:
  assumes "b \<le> 36"
  shows "unat (of_nat b :: 64 word) = b"
  using assms by (simp add: unat_of_nat)

lemma unat_maxUint64: "unat maxUint64 = 2 ^ 64 - 1"
  by (simp add: maxUint64_def unsigned_minus_1_eq_mask mask_eq_exp_minus_1)

lemma step_mult:
  fixes n :: "64 word"
  assumes "unat n * b + d < 2 ^ 64" "b \<le> 36"
  shows "unat (n * of_nat b) = unat n * b"
proof -
  have "unat n * unat (of_nat b :: 64 word) < 2 ^ LENGTH(64)"
    using assms by (simp add: unat_of_nat_small)
  then have "unat (n * of_nat b) = unat n * unat (of_nat b :: 64 word)"
    by (simp only: unat_mult_lem)
  then show ?thesis using assms by (simp add: unat_of_nat_small)
qed

lemma step_add:
  fixes n :: "64 word"
  assumes "unat n * b + d < 2 ^ 64" "b \<le> 36" "d < b"
  shows "unat (n * of_nat b + of_nat d) = unat n * b + d"
proof -
  have d: "unat (of_nat d :: 64 word) = d"
    using assms by (simp add: unat_of_nat_small)
  have "unat (n * of_nat b) + unat (of_nat d :: 64 word) < 2 ^ LENGTH(64)"
    using assms by (simp add: step_mult [OF assms(1,2)] d)
  then have "unat (n * of_nat b + of_nat d) = unat (n * of_nat b) + unat (of_nat d :: 64 word)"
    by (simp only: unat_add_lem)
  then show ?thesis by (simp add: step_mult [OF assms(1,2)] d)
qed

lemma step_cutoff:
  fixes n :: "64 word"
  assumes "unat n * b + d < 2 ^ 64" "2 \<le> b" "b \<le> 36"
  shows "\<not> (maxUint64 div of_nat b + 1 \<le> n)"
proof -
  have q: "unat (maxUint64 div of_nat b) = (2 ^ 64 - 1) div b"
    using assms by (simp add: unat_div unat_maxUint64 unat_of_nat_small)
  have "(2 ^ 64 - 1) div b \<le> (2 ^ 64 - 1) div (2::nat)"
    using assms(2) by (intro div_le_mono2) simp_all
  then have small: "(2 ^ 64 - 1) div b + 1 < (2::nat) ^ 64"
    by simp
  have "unat (maxUint64 div of_nat b) + unat (1 :: 64 word) < 2 ^ LENGTH(64)"
    using small by (simp add: q)
  then have "unat (maxUint64 div of_nat b + 1) = unat (maxUint64 div of_nat b) + unat (1 :: 64 word)"
    by (simp only: unat_add_lem)
  then have c: "unat (maxUint64 div of_nat b + 1) = (2 ^ 64 - 1) div b + 1"
    by (simp add: q)
  have "unat n * b \<le> 2 ^ 64 - 1"
    using assms(1) by simp
  then have "unat n \<le> (2 ^ 64 - 1) div b"
    using assms(2) by (simp add: less_eq_div_iff_mult_less_eq)
  then have "unat n < unat (maxUint64 div of_nat b + 1)"
    by (simp add: c)
  then show ?thesis
    by (simp add: word_le_nat_alt)
qed

lemma foldl_digits_mono:
  "acc \<le> foldl (\<lambda>a c. a * b + g c) acc ds" if "0 < b" for b :: nat
proof (induction ds arbitrary: acc)
  case Nil
  show ?case by simp
next
  case (Cons c cs)
  have "acc \<le> acc * b + g c" using that by (cases b) simp_all
  also have "\<dots> \<le> foldl (\<lambda>a c. a * b + g c) (acc * b + g c) cs" by (rule Cons.IH)
  finally show ?case by simp
qed

lemma parseLoop_exact:
  fixes n :: "64 word"
  assumes "2 \<le> b" "b \<le> 36"
    and "list_all (\<lambda>c. digitOf c = Some (g c) \<and> g c < b) ds"
    and "foldl (\<lambda>a c. a * b + g c) (unat n) ds < 2 ^ 64"
  shows "parseLoop base0 b (maxUint64 div of_nat b + 1) (- 1) ds n us
       = Inr (of_nat (foldl (\<lambda>a c. a * b + g c) (unat n) ds), us)"
  using assms(3,4)
proof (induction ds arbitrary: n)
  case Nil
  show ?case by simp
next
  case (Cons c cs)
  from Cons.prems(1) have dg: "digitOf c = Some (g c)" "g c < b" and rest: "list_all (\<lambda>c. digitOf c = Some (g c) \<and> g c < b) cs"
    by simp_all
  have notus: "c \<noteq> CHR ''_''"
    using dg(1) by (auto simp: digitOf_def lower_def byte_def split: if_splits)
  have "unat n * b + g c \<le> foldl (\<lambda>a c. a * b + g c) (unat n * b + g c) cs"
    using assms(1) by (intro foldl_digits_mono) simp
  with Cons.prems(2) have inrange: "unat n * b + g c < 2 ^ 64"
    by simp
  have u: "unat (n * of_nat b + of_nat (g c)) = unat n * b + g c"
    using inrange assms(2) dg(2) by (rule step_add)
  have m: "unat (n * of_nat b) = unat n * b"
    using inrange assms(2) by (rule step_mult)
  have nolt: "\<not> (n * of_nat b + of_nat (g c) < n * of_nat b)"
    by (simp add: word_less_nat_alt u m)
  have nocut: "\<not> (maxUint64 div of_nat b + 1 \<le> n)"
    using inrange assms(1,2) by (rule step_cutoff)
  have "parseLoop base0 b (maxUint64 div of_nat b + 1) (- 1) (c # cs) n us
      = parseLoop base0 b (maxUint64 div of_nat b + 1) (- 1) cs (n * of_nat b + of_nat (g c)) us"
    using notus dg nolt nocut by (simp add: Let_def not_le [symmetric])
  also have "\<dots> = Inr (of_nat (foldl (\<lambda>a c. a * b + g c) (unat (n * of_nat b + of_nat (g c))) cs), us)"
    using rest Cons.prems(2) by (intro Cons.IH) (simp_all add: u)
  finally show ?case by (simp add: u)
qed

lemma or32_capital: "65 \<le> n \<Longrightarrow> n \<le> 70 \<Longrightarrow> n OR 32 = n + (32::nat)"
proof -
  assume "65 \<le> n" "n \<le> 70"
  then have "n = 65 \<or> n = 66 \<or> n = 67 \<or> n = 68 \<or> n = 69 \<or> n = 70" by arith
  then show ?thesis by (elim disjE) simp_all
qed

lemma or32_small: "97 \<le> n \<Longrightarrow> n \<le> 102 \<Longrightarrow> n OR 32 = (n::nat)"
proof -
  assume "97 \<le> n" "n \<le> 102"
  then have "n = 97 \<or> n = 98 \<or> n = 99 \<or> n = 100 \<or> n = 101 \<or> n = 102" by arith
  then show ?thesis by (elim disjE) simp_all
qed

lemma or32_digit: "48 \<le> n \<Longrightarrow> n \<le> 57 \<Longrightarrow> n OR 32 = (n::nat)"
proof -
  assume "48 \<le> n" "n \<le> 57"
  then have "n = 48 \<or> n = 49 \<or> n = 50 \<or> n = 51 \<or> n = 52 \<or> n = 53 \<or> n = 54 \<or> n = 55
      \<or> n = 56 \<or> n = 57" by arith
  then show ?thesis by (elim disjE) simp_all
qed

lemma digit_dec: "isDecDigit c \<Longrightarrow> digitOf c = Some (digitVal c) \<and> digitVal c < 10"
  by (auto simp: isDecDigit_def digitOf_def digitVal_def)

lemma digit_oct: "isOctDigit c \<Longrightarrow> digitOf c = Some (digitVal c) \<and> digitVal c < 8"
  by (auto simp: isOctDigit_def isDecDigit_def digitOf_def digitVal_def)

lemma digit_hex: "isHexDigit c \<Longrightarrow> digitOf c = Some (digitVal c) \<and> digitVal c < 16"
  unfolding isHexDigit_def
proof (elim disjE)
  assume "isDecDigit c"
  then show ?thesis by (auto simp: isDecDigit_def digitOf_def digitVal_def)
next
  assume a: "97 \<le> byte c \<and> byte c \<le> 102"
  then have "lower c = byte c" by (simp add: lower_def or32_small)
  with a show ?thesis by (auto simp: isDecDigit_def digitOf_def digitVal_def)
next
  assume a: "65 \<le> byte c \<and> byte c \<le> 70"
  then have "lower c = byte c + 32" by (simp add: lower_def or32_capital)
  with a show ?thesis by (auto simp: isDecDigit_def digitOf_def digitVal_def)
qed

lemma ParseUint_digits:
  assumes s: "s \<noteq> []" and pb: "pickBase s 0 = Some (b, ds)" and b: "2 \<le> b" "b \<le> 36"
    and ok: "list_all (\<lambda>c. digitOf c = Some (digitVal c) \<and> digitVal c < b) ds"
    and range: "numberOf b ds < 2 ^ 64"
  shows "ParseUint L s 0 64 = (of_nat (numberOf b ds), None)"
proof -
  have mv: "(push_bit (nat 64) 1 - 1 :: 64 word) = - 1"
    by simp
  have "parseLoop True b (maxUint64 div of_nat b + 1) (- 1) ds 0 False
      = Inr (of_nat (foldl (\<lambda>a c. a * b + digitVal c) (unat (0 :: 64 word)) ds), False)"
    using b ok range by (intro parseLoop_exact) (simp_all add: numberOf_def)
  then have "parseLoop (0 = (0::int)) b (maxUint64 div of_nat b + 1) (push_bit (nat 64) 1 - 1) ds 0 False
      = Inr (of_nat (numberOf b ds), False)"
    by (simp only: mv numberOf_def unat_0 simp_thms)
  then show ?thesis
    using s pb by (simp add: ParseUint_def)
qed

lemma ParseUint_literal:
  assumes "literalValue val = Some v" and "v < 2 ^ 64"
  shows "ParseUint L val 0 64 = (of_nat v, None)"
proof -
  consider
    (dec) "val \<noteq> []" "hd val \<noteq> CHR ''0''" "list_all isDecDigit val" "v = numberOf 10 val"
  | (hex) "length val \<ge> 3" "take 2 val = ''0x''" "list_all isHexDigit (drop 2 val)" "v = numberOf 16 (drop 2 val)"
  | (oct) "val \<noteq> []" "hd val = CHR ''0''" "list_all isOctDigit (tl val)" "v = numberOf 8 (tl val)"
    using assms(1) by (auto simp: literalValue_def split: if_splits)
  then show ?thesis
  proof cases
    case dec
    have "pickBase val 0 = Some (10, val)"
      using dec(2) by (simp add: pickBase_def)
    moreover have "list_all (\<lambda>c. digitOf c = Some (digitVal c) \<and> digitVal c < 10) val"
      using dec(3) by (auto simp: list_all_iff dest: digit_dec)
    ultimately show ?thesis
      using dec(1,4) assms(2) by (simp add: ParseUint_digits)
  next
    case hex
    have "val = take 2 val @ drop 2 val"
      by simp
    with hex(2) obtain ds where v: "val = CHR ''0'' # CHR ''x'' # ds"
      by (metis append_Cons append_Nil)
    have "pickBase val 0 = Some (16, drop 2 val)"
      using hex(1) by (simp add: v pickBase_def lower_def byte_def)
    moreover have "list_all (\<lambda>c. digitOf c = Some (digitVal c) \<and> digitVal c < 16) (drop 2 val)"
      using hex(3) by (auto simp: list_all_iff dest: digit_hex)
    ultimately show ?thesis
      using hex(4) assms(2) v by (simp add: ParseUint_digits)
  next
    case oct
    then obtain ds where v: "val = CHR ''0'' # ds"
      by (cases val) auto
    have "pickBase val 0 = Some (8, drop 1 val)"
    proof (cases ds)
      case Nil
      then show ?thesis by (simp add: v pickBase_def)
    next
      case (Cons d ds')
      with oct(3) v have "isOctDigit d" by simp
      then have "lower d = byte d" "48 \<le> byte d" "byte d \<le> 55"
        by (simp_all add: isOctDigit_def lower_def or32_digit)
      then show ?thesis by (simp add: v Cons pickBase_def)
    qed
    moreover have "list_all (\<lambda>c. digitOf c = Some (digitVal c) \<and> digitVal c < 8) (drop 1 val)"
      using oct(3) v by (auto simp: list_all_iff dest: digit_oct)
    ultimately show ?thesis
      using oct(4) assms(2) v by (simp add: ParseUint_digits)
  qed
qed

lemma ParseInt_literal:
  assumes "signedLiteralValue val = Some x" and "- (2 ^ 63) \<le> x" and "x < 2 ^ 63"
  shows "ParseInt L val 0 64 = (of_int x, None)"
proof -
  from assms(1) obtain c cs where val: "val = c # cs"
    by (cases val) (auto simp: signedLiteralValue_def)
  consider
    (minus) v where "c = CHR ''-''" "literalValue cs = Some v" "x = - int v"
  | (plus) v where "c = CHR ''+''" "literalValue cs = Some v" "x = int v"
  | (plain) v where "c \<noteq> CHR ''-''" "c \<noteq> CHR ''+''" "literalValue val = Some v" "x = int v"
    using assms(1) val by (auto simp: signedLiteralValue_def split: if_splits)
  then show ?thesis
  proof cases
    case minus
    with assms(2) have v: "v \<le> 2 ^ 63" by simp
    then have pu: "ParseUint L cs 0 64 = (of_nat v, None)"
      using minus(2) by (intro ParseUint_literal) simp_all
    have u: "unat (of_nat v :: 64 word) = v"
      using v by (simp add: unat_of_nat)
    have "\<not> ((2 ^ 63 :: 64 word) < of_nat v)"
      using v by (simp add: word_less_nat_alt u)
    then show ?thesis
      using pu minus by (simp add: ParseInt_def val Let_def)
  next
    case plus
    with assms(3) have v: "v < 2 ^ 63" by simp
    then have pu: "ParseUint L cs 0 64 = (of_nat v, None)"
      using plus(2) by (intro ParseUint_literal) simp_all
    have u: "unat (of_nat v :: 64 word) = v"
      using v by (simp add: unat_of_nat)
    have "\<not> ((2 ^ 63 :: 64 word) \<le> of_nat v)"
      using v by (simp add: word_le_nat_alt u)
    then show ?thesis
      using pu plus by (simp add: ParseInt_def val Let_def)
  next
    case plain
    with assms(3) have v: "v < 2 ^ 63" by simp
    then have pu: "ParseUint L val 0 64 = (of_nat v, None)"
      using plain(3) by (intro ParseUint_literal) simp_all
    have u: "unat (of_nat v :: 64 word) = v"
      using v by (simp add: unat_of_nat)
    have "\<not> ((2 ^ 63 :: 64 word) \<le> of_nat v)"
      using v by (simp add: word_le_nat_alt u)
    then show ?thesis
      using pu plain by (simp add: ParseInt_def val Let_def)
  qed
qed

lemma narrow_of_nat:
  assumes "LENGTH('w::len) \<le> 64"
  shows "(ucast (of_nat v :: 64 word) :: 'w word) = of_nat v"
proof -
  have "(ucast (word_of_int (int v) :: 64 word) :: 'w word) = word_of_int (int v)"
    by (rule ucast_down_wi) (simp add: is_down assms)
  then show ?thesis by simp
qed

lemma narrow_of_int:
  assumes "LENGTH('w::len) \<le> 64"
  shows "(scast (of_int x :: 64 word) :: 'w word) = of_int x"
proof -
  have d: "is_down (ucast :: 64 word \<Rightarrow> 'w word)"
    by (simp add: is_down assms)
  have "(ucast (word_of_int x :: 64 word) :: 'w word) = word_of_int x"
    using d by (rule ucast_down_wi)
  then show ?thesis
    by (simp add: down_cast_same [OF d, symmetric])
qed

lemma sint_of_int_in_range:
  assumes "- (2 ^ (LENGTH('w::len) - 1)) \<le> x" and "x < 2 ^ (LENGTH('w) - 1)"
  shows "sint (of_int x :: 'w word) = x"
  using assms by (simp add: sint_sbintrunc' signed_take_bit_int_eq_self)

lemma unat_of_nat_in_range:
  assumes "v < 2 ^ LENGTH('w::len)"
  shows "unat (of_nat v :: 'w word) = v"
  using assms by (simp add: unat_of_nat)

lemma pow_width_le:
  assumes "LENGTH('w::len) \<le> 64"
  shows "(2::nat) ^ LENGTH('w) \<le> 2 ^ 64" and "(2::int) ^ (LENGTH('w) - 1) \<le> 2 ^ 63"
proof -
  show "(2::nat) ^ LENGTH('w) \<le> 2 ^ 64"
    by (rule power_increasing) (use assms in simp_all)
  have "LENGTH('w) - 1 \<le> 63"
    using assms by simp
  then show "(2::int) ^ (LENGTH('w) - 1) \<le> 2 ^ 63"
    by (rule power_increasing) simp
qed

section \<open>Integer literals in the environment\<close>

text \<open>
  C8. When the variable of an integer flag is set to a decimal literal, a hexadecimal
  literal with the prefix \<open>0x\<close> or an octal literal with the prefix \<open>0\<close>, and the number
  fits the type, the number is the effective default: \<open>uint64FromEnv\<close> and
  \<open>int64FromEnv\<close> return it, and the \<open>uint\<close> and \<open>int\<close> constructors hand it to the flag
  package. A signed literal may carry a sign.
\<close>

theorem integer_literal_is_default:
  fixes s :: "('w::len word, 'f) proc" and n m :: "'w word"
  assumes isset: "LookupEnv s (envNameForFlagName L s name) = Some val"
    and width: "LENGTH('w) \<le> 64"
  shows "(literalValue val = Some v \<and> v < 2 ^ 64 \<longrightarrow>
            uint64FromEnv L s name u = of_nat v \<and> unat (uint64FromEnv L s name u) = v)
       \<and> (literalValue val = Some v \<and> v < 2 ^ LENGTH('w) \<longrightarrow>
            Uint L name m usage s = f_Uint name (of_nat v) usage s
          \<and> unat (of_nat v :: 'w word) = v)
       \<and> (signedLiteralValue val = Some x \<and> - (2 ^ 63) \<le> x \<and> x < 2 ^ 63 \<longrightarrow>
            int64FromEnv L s name i = of_int x \<and> sint (int64FromEnv L s name i) = x)
       \<and> (signedLiteralValue val = Some x
            \<and> - (2 ^ (LENGTH('w) - 1)) \<le> x \<and> x < 2 ^ (LENGTH('w) - 1) \<longrightarrow>
            Int_go L name n usage s = f_Int name (of_int x) usage s
          \<and> IntVar L p name n usage s = f_IntVar p name (of_int x) usage s
          \<and> sint (of_int x :: 'w word) = x)"
proof (intro conjI impI; elim conjE)
  assume lv: "literalValue val = Some v" and r: "v < 2 ^ 64"
  then have "ParseUint L val 0 64 = (of_nat v, None)"
    by (rule ParseUint_literal)
  with isset show "uint64FromEnv L s name u = of_nat v"
    by (simp add: uint64FromEnv_def)
  with r show "unat (uint64FromEnv L s name u) = v"
    by (simp add: unat_of_nat)
next
  assume lv: "literalValue val = Some v" and r: "v < 2 ^ LENGTH('w)"
  from r pow_width_le(1) [OF width] have "v < 2 ^ 64" by simp
  with lv have "ParseUint L val 0 64 = (of_nat v, None)"
    by (rule ParseUint_literal)
  with isset have "uint64FromEnv L s name (ucast m) = of_nat v"
    by (simp add: uint64FromEnv_def)
  then show "Uint L name m usage s = f_Uint name (of_nat v) usage s"
    by (simp add: Uint_def narrow_of_nat [OF width])
  from r show "unat (of_nat v :: 'w word) = v"
    by (rule unat_of_nat_in_range)
next
  assume sv: "signedLiteralValue val = Some x" and lo: "- (2 ^ 63) \<le> x" and hi: "x < 2 ^ 63"
  then have "ParseInt L val 0 64 = (of_int x, None)"
    by (rule ParseInt_literal)
  with isset show "int64FromEnv L s name i = of_int x"
    by (simp add: int64FromEnv_def)
  moreover have "sint (of_int x :: 64 word) = x"
    using lo hi by (intro sint_of_int_in_range) simp_all
  ultimately show "sint (int64FromEnv L s name i) = x"
    by simp
next
  assume sv: "signedLiteralValue val = Some x"
    and lo: "- (2 ^ (LENGTH('w) - 1)) \<le> x" and hi: "x < 2 ^ (LENGTH('w) - 1)"
  from lo hi pow_width_le(2) [OF width] have "- (2 ^ 63) \<le> x" "x < 2 ^ 63"
    by simp_all
  with sv have "ParseInt L val 0 64 = (of_int x, None)"
    by (intro ParseInt_literal)
  with isset have "int64FromEnv L s name (scast n) = of_int x"
    by (simp add: int64FromEnv_def)
  then show "Int_go L name n usage s = f_Int name (of_int x) usage s"
    and "IntVar L p name n usage s = f_IntVar p name (of_int x) usage s"
    by (simp_all add: Int_go_def IntVar_def narrow_of_int [OF width])
  from lo hi show "sint (of_int x :: 'w word) = x"
    by (rule sint_of_int_in_range)
qed

theorem integer_literal_is_default_witness:
  "LookupEnv exProc (envNameForFlagName exLib exProc ''mask'') = Some ''0x1F''
   \<and> LENGTH(32) \<le> (64::nat)
   \<and> literalValue ''0x1F'' = Some 31 \<and> signedLiteralValue ''0x1F'' = Some 31
   \<and> uint64FromEnv exLib exProc ''mask'' 0 = 31
   \<and> int64FromEnv exLib exProc ''mask'' 0 = 31
   \<and> Uint exLib ''mask'' 0 ''bits'' exProc = f_Uint ''mask'' 31 ''bits'' exProc
   \<and> Int_go exLib ''mask'' 0 ''bits'' exProc = f_Int ''mask'' 31 ''bits'' exProc"
proof -
  have h: "LookupEnv exProc (envNameForFlagName exLib exProc ''mask'') = Some ''0x1F''"
    by code_simp
  have w: "LENGTH(32) \<le> (64::nat)" by simp
  have lv: "literalValue ''0x1F'' = Some 31" by code_simp
  have sv: "signedLiteralValue ''0x1F'' = Some 31" by code_simp
  note t = integer_literal_is_default [OF h w, where v = 31 and x = 31]
  have "uint64FromEnv exLib exProc ''mask'' 0 = 31"
    using t [of 0] lv by simp
  moreover have "int64FromEnv exLib exProc ''mask'' 0 = 31"
    using t sv by simp
  moreover have "Uint exLib ''mask'' 0 ''bits'' exProc = f_Uint ''mask'' 31 ''bits'' exProc"
    using t lv by simp
  moreover have "Int_go exLib ''mask'' 0 ''bits'' exProc = f_Int ''mask'' 31 ''bits'' exProc"
    using t sv by simp
  ultimately show ?thesis using h w lv sv by simp
qed

end
